theory Spec2Isabelle
  imports Main
begin

section \<open>Python values\<close>

text \<open>
  The module \<^verbatim>\<open>generador_pdf.py\<close> formats two dictionaries (a lead and an analysis)
  into an HTML document and hands it to WeasyPrint. A Python \<^verbatim>\<open>str\<close> is a sequence of
  Unicode code points, and \<^verbatim>\<open>len\<close>, slicing and \<^verbatim>\<open>isalnum\<close> work on code points, so a
  string is modelled as a list of code points (natural numbers), not as a list of bytes.
\<close>

type_synonym pychar = nat
type_synonym pystr = "pychar list"

definition ascii :: "string \<Rightarrow> pystr" where
  "ascii s = map of_char s"

text \<open>
  The dictionaries hold dynamically typed values. The model covers the JSON-like values:
  \<^verbatim>\<open>None\<close>, booleans, integers, strings, lists, and dictionaries with string keys
  (floating-point numbers are left out).
  A dictionary is an association list in insertion order; the first entry of a key is
  the one the dictionary holds.
\<close>

datatype pyval =
    VNone
  | VBool bool
  | VInt int
  | VStr pystr
  | VList "pyval list"
  | VDict "(pystr \<times> pyval) list"

type_synonym pydict = "(pystr \<times> pyval) list"

text \<open>
  The exceptions the code can raise, all of them subclasses of \<^verbatim>\<open>Exception\<close>:
  the built-in ones of the composition, and \<open>RenderError\<close> for whatever WeasyPrint or
  the file system raises while the document is written.
\<close>

datatype error = TypeError | AttributeError | IndexError | RenderError

text \<open>Sequencing of computations that may raise: the first exception wins.\<close>

definition ebind :: "error + 'a \<Rightarrow> ('a \<Rightarrow> error + 'b) \<Rightarrow> error + 'b" where
  "ebind m f = (case m of Inl e \<Rightarrow> Inl e | Inr x \<Rightarrow> f x)"

text \<open>
  What the interpreter supplies and the repository does not define: the Unicode
  database beyond Latin-1 (for \<^verbatim>\<open>str.isalnum\<close>, \<^verbatim>\<open>str.isspace\<close> and \<^verbatim>\<open>str.upper\<close>)
  and the \<^verbatim>\<open>repr\<close> of containers that \<^verbatim>\<open>format\<close> falls back to. They are parameters
  of the model.
\<close>

record pyenv =
  alnum_hi :: "pychar \<Rightarrow> bool"
  space_hi :: "pychar \<Rightarrow> bool"
  upper_hi :: "pychar \<Rightarrow> pystr"
  repr_cont :: "pyval \<Rightarrow> pystr"

subsection \<open>Dictionaries\<close>

text \<open>\<^verbatim>\<open>d.get(k, default)\<close>\<close>

definition dict_get :: "pydict \<Rightarrow> pystr \<Rightarrow> pyval \<Rightarrow> pyval" where
  "dict_get d k dflt = (case map_of d k of None \<Rightarrow> dflt | Some v \<Rightarrow> v)"

text \<open>The keys of a dictionary, each once, in insertion order.\<close>

fun dict_keys :: "pydict \<Rightarrow> pystr list" where
  "dict_keys [] = []"
| "dict_keys ((k, v) # d) = k # dict_keys (filter (\<lambda>(k', _). k' \<noteq> k) d)"

text \<open>\<^verbatim>\<open>v.get(k, default)\<close> on a value: only a dictionary has the method.\<close>

fun val_get :: "pyval \<Rightarrow> pystr \<Rightarrow> pyval \<Rightarrow> error + pyval" where
  "val_get (VDict d) k dflt = Inr (dict_get d k dflt)"
| "val_get _ k dflt = Inl AttributeError"

subsection \<open>Truth value, length, iteration\<close>

fun truthy :: "pyval \<Rightarrow> bool" where
  "truthy VNone = False"
| "truthy (VBool b) = b"
| "truthy (VInt i) = (i \<noteq> 0)"
| "truthy (VStr s) = (s \<noteq> [])"
| "truthy (VList xs) = (xs \<noteq> [])"
| "truthy (VDict d) = (d \<noteq> [])"

fun py_len :: "pyval \<Rightarrow> error + nat" where
  "py_len (VStr s) = Inr (length s)"
| "py_len (VList xs) = Inr (length xs)"
| "py_len (VDict d) = Inr (length (dict_keys d))"
| "py_len _ = Inl TypeError"

text \<open>\<^verbatim>\<open>for x in v\<close>: the elements a value yields, or \<^verbatim>\<open>TypeError\<close>.\<close>

fun py_iter :: "pyval \<Rightarrow> error + pyval list" where
  "py_iter (VStr s) = Inr (map (\<lambda>c. VStr [c]) s)"
| "py_iter (VList xs) = Inr xs"
| "py_iter (VDict d) = Inr (map VStr (dict_keys d))"
| "py_iter _ = Inl TypeError"

text \<open>
  \<^verbatim>\<open>v[:n]\<close>. Slicing a dictionary raises (\<^verbatim>\<open>TypeError: unhashable type: 'slice'\<close>
  up to Python 3.11; from 3.12 on a \<^verbatim>\<open>KeyError\<close>, which the model does not tell apart).
\<close>

fun py_slice_to :: "nat \<Rightarrow> pyval \<Rightarrow> error + pyval" where
  "py_slice_to n (VStr s) = Inr (VStr (take n s))"
| "py_slice_to n (VList xs) = Inr (VList (take n xs))"
| "py_slice_to n _ = Inl TypeError"

text \<open>\<^verbatim>\<open>v + '...'\<close> with a string on the right: only a string can be on the left.\<close>

fun py_add_str :: "pyval \<Rightarrow> pystr \<Rightarrow> error + pyval" where
  "py_add_str (VStr s) t = Inr (VStr (s @ t))"
| "py_add_str _ t = Inl TypeError"

subsection \<open>Formatting\<close>

fun digits :: "nat \<Rightarrow> pystr" where
  "digits n = (if n < 10 then [48 + n] else digits (n div 10) @ [48 + n mod 10])"

declare digits.simps [simp del]

definition str_int :: "int \<Rightarrow> pystr" where
  "str_int i = (if i < 0 then 45 # digits (nat (- i)) else digits (nat i))"

text \<open>What an f-string puts for \<^verbatim>\<open>{v}\<close>.\<close>

fun py_format :: "pyenv \<Rightarrow> pyval \<Rightarrow> pystr" where
  "py_format E (VStr s) = s"
| "py_format E (VInt i) = str_int i"
| "py_format E VNone = ascii ''None''"
| "py_format E (VBool b) = (if b then ascii ''True'' else ascii ''False'')"
| "py_format E v = repr_cont E v"

subsection \<open>String methods\<close>

text \<open>\<^verbatim>\<open>c.isalnum()\<close> for one code point; Latin-1 written out.\<close>

definition isalnum_char :: "pyenv \<Rightarrow> pychar \<Rightarrow> bool" where
  "isalnum_char E c =
     (if c < 256 then
        (48 \<le> c \<and> c \<le> 57) \<or> (65 \<le> c \<and> c \<le> 90) \<or> (97 \<le> c \<and> c \<le> 122) \<or>
        c = 170 \<or> c = 178 \<or> c = 179 \<or> c = 181 \<or> c = 185 \<or> c = 186 \<or>
        (188 \<le> c \<and> c \<le> 190) \<or> (192 \<le> c \<and> c \<le> 214) \<or>
        (216 \<le> c \<and> c \<le> 246) \<or> 248 \<le> c
      else alnum_hi E c)"

text \<open>\<^verbatim>\<open>s.isalnum()\<close>: at least one character and all of them alphanumeric.\<close>

definition str_isalnum :: "pyenv \<Rightarrow> pystr \<Rightarrow> bool" where
  "str_isalnum E s = (s \<noteq> [] \<and> list_all (isalnum_char E) s)"

definition isspace_char :: "pyenv \<Rightarrow> pychar \<Rightarrow> bool" where
  "isspace_char E c =
     (if c < 256 then
        (9 \<le> c \<and> c \<le> 13) \<or> (28 \<le> c \<and> c \<le> 32) \<or> c = 133 \<or> c = 160
      else space_hi E c)"

text \<open>\<^verbatim>\<open>s.strip(chars)\<close> and \<^verbatim>\<open>s.strip()\<close>: both ends are stripped.\<close>

definition strip_by :: "(pychar \<Rightarrow> bool) \<Rightarrow> pystr \<Rightarrow> pystr" where
  "strip_by p s = rev (dropWhile p (rev (dropWhile p s)))"

definition strip_chars :: "pystr \<Rightarrow> pystr \<Rightarrow> pystr" where
  "strip_chars cs s = strip_by (\<lambda>c. c \<in> set cs) s"

definition strip :: "pyenv \<Rightarrow> pystr \<Rightarrow> pystr" where
  "strip E s = strip_by (isspace_char E) s"

text \<open>\<^verbatim>\<open>s.replace(c, r)\<close> for a pattern \<open>c\<close> of one character.\<close>

definition replace_char :: "pychar \<Rightarrow> pystr \<Rightarrow> pystr \<Rightarrow> pystr" where
  "replace_char c r s = concat (map (\<lambda>x. if x = c then r else [x]) s)"

text \<open>\<^verbatim>\<open>s.split(c)\<close> for a separator of one character.\<close>

fun split_char :: "pychar \<Rightarrow> pystr \<Rightarrow> pystr list" where
  "split_char c [] = [[]]"
| "split_char c (x # xs) =
     (if x = c then [] # split_char c xs
      else (case split_char c xs of
              [] \<Rightarrow> [[x]]
            | w # ws \<Rightarrow> (x # w) # ws))"

text \<open>\<^verbatim>\<open>s.upper()\<close>; the full case mapping, so one character can give two.\<close>

definition upper_char :: "pyenv \<Rightarrow> pychar \<Rightarrow> pystr" where
  "upper_char E c =
     (if 97 \<le> c \<and> c \<le> 122 then [c - 32]
      else if c = 181 then [924]
      else if c = 223 then [83, 83]
      else if (224 \<le> c \<and> c \<le> 246) \<or> (248 \<le> c \<and> c \<le> 254) then [c - 32]
      else if c = 255 then [376]
      else if c < 256 then [c]
      else upper_hi E c)"

definition upper :: "pyenv \<Rightarrow> pystr \<Rightarrow> pystr" where
  "upper E s = concat (map (upper_char E) s)"

fun val_upper :: "pyenv \<Rightarrow> pyval \<Rightarrow> error + pystr" where
  "val_upper E (VStr s) = Inr (upper E s)"
| "val_upper E _ = Inl AttributeError"

fun val_replace_nl :: "pyval \<Rightarrow> error + pystr" where
  "val_replace_nl (VStr s) = Inr (replace_char 10 (ascii ''<br>'') s)"
| "val_replace_nl _ = Inl AttributeError"

text \<open>\<^verbatim>\<open>xs[i]\<close> with Python's negative indices.\<close>

definition py_index :: "'a list \<Rightarrow> int \<Rightarrow> error + 'a" where
  "py_index xs i =
     (if i < - int (length xs) \<or> int (length xs) \<le> i then Inl IndexError
      else if i < 0 then Inr (xs ! nat (int (length xs) + i))
      else Inr (xs ! nat i))"

subsection \<open>The clock\<close>

text \<open>What \<^verbatim>\<open>datetime.now()\<close> returns.\<close>

record datetime =
  year :: nat
  month :: nat
  day :: nat
  hour :: nat
  minute :: nat
  second :: nat

definition zpad :: "nat \<Rightarrow> nat \<Rightarrow> pystr" where
  "zpad w n = replicate (w - length (digits n)) 48 @ digits n"

text \<open>
  \<^verbatim>\<open>strftime('%Y%m%d_%H%M%S')\<close>, for the years of four digits that the clock gives.
\<close>

definition strftime_ts :: "datetime \<Rightarrow> pystr" where
  "strftime_ts t =
     zpad 4 (year t) @ zpad 2 (month t) @ zpad 2 (day t) @ ascii ''_'' @
     zpad 2 (hour t) @ zpad 2 (minute t) @ zpad 2 (second t)"

section \<open>The texts of the templates\<close>

definition html_0 :: pystr where
  \<open>html_0 =
     ascii ''\<newline>'' @
     ascii ''<!DOCTYPE html>\<newline>'' @
     ascii ''<html lang="es">\<newline>'' @
     ascii ''<head>\<newline>'' @
     ascii ''    <meta charset="UTF-8">\<newline>'' @
     ascii ''    <title>Reporte de An'' @
     [225] @
     ascii ''lisis - ''\<close>

definition html_1 :: pystr where
  \<open>html_1 =
     ascii ''</title>\<newline>'' @
     ascii ''</head>\<newline>'' @
     ascii ''<body>\<newline>'' @
     ascii ''    <!-- HEADER -->\<newline>'' @
     ascii ''    <div class="header">\<newline>'' @
     ascii ''        <div class="logo-container">\<newline>'' @
     ascii ''            <div class="logo-text">MARCA SEGURA</div>\<newline>'' @
     ascii ''        </div>\<newline>'' @
     ascii ''        <div class="header-title">\<newline>'' @
     ascii ''            <h1>Examen de Viabilidad aplicado a la marca<br><strong>''\<close>

definition html_2 :: pystr where
  \<open>html_2 =
     ascii ''</strong><br>ante el IMPI</h1>\<newline>'' @
     ascii ''        </div>\<newline>'' @
     ascii ''        <div class="header-info">\<newline>'' @
     ascii ''            <p><strong>Fecha:</strong> ''\<close>

definition html_3 :: pystr where
  \<open>html_3 =
     ascii ''</p>\<newline>'' @
     ascii ''            <p><strong>Cliente:</strong> ''\<close>

definition html_4 :: pystr where
  \<open>html_4 =
     ascii ''</p>\<newline>'' @
     ascii ''            <p><strong>Clase Niza:</strong> ''\<close>

definition html_5 :: pystr where
  \<open>html_5 =
     ascii ''</p>\<newline>'' @
     ascii ''        </div>\<newline>'' @
     ascii ''    </div>\<newline>'' @
     ascii ''    \<newline>'' @
     ascii ''    <!-- RESUMEN EJECUTIVO -->\<newline>'' @
     ascii ''    <div class="seccion">\<newline>'' @
     ascii ''        <h2>Resumen Ejecutivo</h2>\<newline>'' @
     ascii ''        <div class="viabilidad-container">\<newline>'' @
     ascii ''            <div class="viabilidad-box">\<newline>'' @
     ascii ''                <div class="viabilidad-label">Porcentaje de Viabilidad</div>\<newline>'' @
     ascii ''                <div class="viabilidad-valor">''\<close>

definition html_6 :: pystr where
  \<open>html_6 =
     ascii ''%</div>\<newline>'' @
     ascii ''            </div>\<newline>'' @
     ascii ''            <div class="riesgo-box" style="border-color: ''\<close>

definition html_7 :: pystr where
  \<open>html_7 =
     ascii '';">\<newline>'' @
     ascii ''                <div class="riesgo-label">Nivel de Riesgo</div>\<newline>'' @
     ascii ''                <div class="riesgo-valor" style="color: ''\<close>

definition html_8 :: pystr where
  \<open>html_8 =
     ascii '';">''\<close>

definition html_9 :: pystr where
  \<open>html_9 =
     ascii ''</div>\<newline>'' @
     ascii ''            </div>\<newline>'' @
     ascii ''        </div>\<newline>'' @
     ascii ''    </div>\<newline>'' @
     ascii ''    \<newline>'' @
     ascii ''    <!-- AN'' @
     [193] @
     ascii ''LISIS DETALLADO -->\<newline>'' @
     ascii ''    <div class="seccion">\<newline>'' @
     ascii ''        <h2>An'' @
     [225] @
     ascii ''lisis Detallado</h2>\<newline>'' @
     ascii ''        <div class="texto-analisis">\<newline>'' @
     ascii ''            ''\<close>

definition html_10 :: pystr where
  \<open>html_10 =
     ascii ''\<newline>'' @
     ascii ''        </div>\<newline>'' @
     ascii ''    </div>\<newline>'' @
     ascii ''    \<newline>'' @
     ascii ''    <!-- MARCAS CONFLICTIVAS -->\<newline>'' @
     ascii ''    ''\<close>

definition html_11 :: pystr where
  \<open>html_11 =
     ascii ''\<newline>'' @
     ascii ''    \<newline>'' @
     ascii ''    <!-- FACTORES DE RIESGO -->\<newline>'' @
     ascii ''    ''\<close>

definition html_12 :: pystr where
  \<open>html_12 =
     ascii ''\<newline>'' @
     ascii ''    \<newline>'' @
     ascii ''    <!-- FACTORES FAVORABLES -->\<newline>'' @
     ascii ''    ''\<close>

definition html_13 :: pystr where
  \<open>html_13 =
     ascii ''\<newline>'' @
     ascii ''    \<newline>'' @
     ascii ''    <!-- RECOMENDACIONES -->\<newline>'' @
     ascii ''    ''\<close>

definition html_14 :: pystr where
  \<open>html_14 =
     ascii ''\<newline>'' @
     ascii ''    \<newline>'' @
     ascii ''    <!-- FOOTER -->\<newline>'' @
     ascii ''    <div class="footer">\<newline>'' @
     ascii ''        <p>Este reporte ha sido elaborado por MARCA SEGURA</p>\<newline>'' @
     ascii ''        <p>Consultores especializados en propiedad intelectual</p>\<newline>'' @
     ascii ''        <p>Documento confidencial - Para uso exclusivo del cliente</p>\<newline>'' @
     ascii ''    </div>\<newline>'' @
     ascii ''</body>\<newline>'' @
     ascii ''</html>\<newline>'' @
     ascii ''        ''\<close>

definition sin_marcas :: pystr where
  \<open>sin_marcas =
     ascii ''\<newline>'' @
     ascii ''            <div class="seccion">\<newline>'' @
     ascii ''                <h2>Marcas Potencialmente Conflictivas</h2>\<newline>'' @
     ascii ''                <p class="no-marcas">No se identificaron marcas conflictivas significativas.</p>\<newline>'' @
     ascii ''            </div>\<newline>'' @
     ascii ''            ''\<close>

definition fila_0 :: pystr where
  \<open>fila_0 =
     ascii ''\<newline>'' @
     ascii ''            <tr>\<newline>'' @
     ascii ''                <td>''\<close>

definition fila_1 :: pystr where
  \<open>fila_1 =
     ascii ''</td>\<newline>'' @
     ascii ''                <td><strong>''\<close>

definition fila_2 :: pystr where
  \<open>fila_2 =
     ascii ''</strong></td>\<newline>'' @
     ascii ''                <td>''\<close>

definition fila_3 :: pystr where
  \<open>fila_3 =
     ascii ''</td>\<newline>'' @
     ascii ''                <td>''\<close>

definition fila_4 :: pystr where
  \<open>fila_4 =
     ascii ''</td>\<newline>'' @
     ascii ''                <td>''\<close>

definition fila_5 :: pystr where
  \<open>fila_5 =
     ascii ''</td>\<newline>'' @
     ascii ''                <td><span class="estado-marca">''\<close>

definition fila_6 :: pystr where
  \<open>fila_6 =
     ascii ''</span></td>\<newline>'' @
     ascii ''            </tr>\<newline>'' @
     ascii ''            ''\<close>

definition tabla_0 :: pystr where
  \<open>tabla_0 =
     ascii ''\<newline>'' @
     ascii ''        <div class="seccion">\<newline>'' @
     ascii ''            <h2>Marcas Potencialmente Conflictivas</h2>\<newline>'' @
     ascii ''            <p class="descripcion-tabla">Se han identificado ''\<close>

definition tabla_1 :: pystr where
  \<open>tabla_1 =
     ascii '' marcas registradas que podr'' @
     [237] @
     ascii ''an representar un conflicto. A continuaci'' @
     [243] @
     ascii ''n se muestran las m'' @
     [225] @
     ascii ''s relevantes:</p>\<newline>'' @
     ascii ''            <table class="tabla-marcas">\<newline>'' @
     ascii ''                <thead>\<newline>'' @
     ascii ''                    <tr>\<newline>'' @
     ascii ''                        <th>#</th>\<newline>'' @
     ascii ''                        <th>Denominaci'' @
     [243] @
     ascii ''n</th>\<newline>'' @
     ascii ''                        <th>Expediente</th>\<newline>'' @
     ascii ''                        <th>Titular</th>\<newline>'' @
     ascii ''                        <th>Clase</th>\<newline>'' @
     ascii ''                        <th>Estado</th>\<newline>'' @
     ascii ''                    </tr>\<newline>'' @
     ascii ''                </thead>\<newline>'' @
     ascii ''                <tbody>\<newline>'' @
     ascii ''                    ''\<close>

definition tabla_2 :: pystr where
  \<open>tabla_2 =
     ascii ''\<newline>'' @
     ascii ''                </tbody>\<newline>'' @
     ascii ''            </table>\<newline>'' @
     ascii ''        </div>\<newline>'' @
     ascii ''        ''\<close>

definition item_0 :: pystr where
  \<open>item_0 =
     ascii ''<li><span class="icono" style="color: ''\<close>

definition item_1 :: pystr where
  \<open>item_1 =
     ascii '';">''\<close>

definition item_2 :: pystr where
  \<open>item_2 =
     ascii ''</span> ''\<close>

definition item_3 :: pystr where
  \<open>item_3 =
     ascii ''</li>''\<close>

definition lista_0 :: pystr where
  \<open>lista_0 =
     ascii ''\<newline>'' @
     ascii ''        <div class="seccion">\<newline>'' @
     ascii ''            <h2>''\<close>

definition lista_1 :: pystr where
  \<open>lista_1 =
     ascii ''</h2>\<newline>'' @
     ascii ''            <ul class="lista-items">\<newline>'' @
     ascii ''                ''\<close>

definition lista_2 :: pystr where
  \<open>lista_2 =
     ascii ''\<newline>'' @
     ascii ''            </ul>\<newline>'' @
     ascii ''        </div>\<newline>'' @
     ascii ''        ''\<close>

definition rec_0 :: pystr where
  \<open>rec_0 =
     ascii ''<li><strong>''\<close>

definition rec_1 :: pystr where
  \<open>rec_1 =
     ascii ''.</strong> ''\<close>

definition rec_2 :: pystr where
  \<open>rec_2 =
     ascii ''</li>''\<close>

definition recs_0 :: pystr where
  \<open>recs_0 =
     ascii ''\<newline>'' @
     ascii ''        <div class="seccion recomendaciones">\<newline>'' @
     ascii ''            <h2>Recomendaciones</h2>\<newline>'' @
     ascii ''            <ol class="lista-recomendaciones">\<newline>'' @
     ascii ''                ''\<close>

definition recs_1 :: pystr where
  \<open>recs_1 =
     ascii ''\<newline>'' @
     ascii ''            </ol>\<newline>'' @
     ascii ''        </div>\<newline>'' @
     ascii ''        ''\<close>

definition generar_css :: pystr where
  \<open>generar_css =
     ascii ''\<newline>'' @
     ascii ''        @page {\<newline>'' @
     ascii ''            size: Letter;\<newline>'' @
     ascii ''            margin: 2cm 1.5cm;\<newline>'' @
     ascii ''            \<newline>'' @
     ascii ''            @top-right {\<newline>'' @
     ascii ''                content: "P'' @
     [225] @
     ascii ''gina " counter(page) " de " counter(pages);\<newline>'' @
     ascii ''                font-size: 9pt;\<newline>'' @
     ascii ''                color: #6b7280;\<newline>'' @
     ascii ''            }\<newline>'' @
     ascii ''        }\<newline>'' @
     ascii ''        \<newline>'' @
     ascii ''        body {\<newline>'' @
     ascii ''            font-family: '' @
     [39] @
     ascii ''Helvetica'' @
     [39] @
     ascii '', '' @
     [39] @
     ascii ''Arial'' @
     [39] @
     ascii '', sans-serif;\<newline>'' @
     ascii ''            font-size: 11pt;\<newline>'' @
     ascii ''            line-height: 1.6;\<newline>'' @
     ascii ''            color: #1f2937;\<newline>'' @
     ascii ''        }\<newline>'' @
     ascii ''        \<newline>'' @
     ascii ''        .header {\<newline>'' @
     ascii ''            text-align: center;\<newline>'' @
     ascii ''            margin-bottom: 30px;\<newline>'' @
     ascii ''            padding-bottom: 20px;\<newline>'' @
     ascii ''            border-bottom: 3px solid #7c3aed;\<newline>'' @
     ascii ''        }\<newline>'' @
     ascii ''        \<newline>'' @
     ascii ''        .logo-text {\<newline>'' @
     ascii ''            font-size: 24pt;\<newline>'' @
     ascii ''            font-weight: bold;\<newline>'' @
     ascii ''            color: #7c3aed;\<newline>'' @
     ascii ''            letter-spacing: 2px;\<newline>'' @
     ascii ''        }\<newline>'' @
     ascii ''        \<newline>'' @
     ascii ''        .header-title h1 {\<newline>'' @
     ascii ''            font-size: 18pt;\<newline>'' @
     ascii ''            color: #1f2937;\<newline>'' @
     ascii ''            margin: 15px 0;\<newline>'' @
     ascii ''            line-height: 1.4;\<newline>'' @
     ascii ''        }\<newline>'' @
     ascii ''        \<newline>'' @
     ascii ''        .header-title strong {\<newline>'' @
     ascii ''            color: #7c3aed;\<newline>'' @
     ascii ''            font-size: 20pt;\<newline>'' @
     ascii ''        }\<newline>'' @
     ascii ''        \<newline>'' @
     ascii ''        .header-info {\<newline>'' @
     ascii ''            margin-top: 15px;\<newline>'' @
     ascii ''            font-size: 10pt;\<newline>'' @
     ascii ''            color: #6b7280;\<newline>'' @
     ascii ''        }\<newline>'' @
     ascii ''        \<newline>'' @
     ascii ''        .seccion {\<newline>'' @
     ascii ''            margin-bottom: 25px;\<newline>'' @
     ascii ''            page-break-inside: avoid;\<newline>'' @
     ascii ''        }\<newline>'' @
     ascii ''        \<newline>'' @
     ascii ''        h2 {\<newline>'' @
     ascii ''            color: #7c3aed;\<newline>'' @
     ascii ''            font-size: 14pt;\<newline>'' @
     ascii ''            margin-bottom: 15px;\<newline>'' @
     ascii ''            padding-bottom: 8px;\<newline>'' @
     ascii ''            border-bottom: 2px solid #e5e7eb;\<newline>'' @
     ascii ''        }\<newline>'' @
     ascii ''        \<newline>'' @
     ascii ''        .viabilidad-container {\<newline>'' @
     ascii ''            display: flex;\<newline>'' @
     ascii ''            justify-content: space-around;\<newline>'' @
     ascii ''            margin: 20px 0;\<newline>'' @
     ascii ''        }\<newline>'' @
     ascii ''        \<newline>'' @
     ascii ''        .viabilidad-box, .riesgo-box {\<newline>'' @
     ascii ''            text-align: center;\<newline>'' @
     ascii ''            padding: 20px;\<newline>'' @
     ascii ''            border: 3px solid #7c3aed;\<newline>'' @
     ascii ''            border-radius: 10px;\<newline>'' @
     ascii ''            width: 45%;\<newline>'' @
     ascii ''        }\<newline>'' @
     ascii ''        \<newline>'' @
     ascii ''        .viabilidad-valor {\<newline>'' @
     ascii ''            font-size: 36pt;\<newline>'' @
     ascii ''            font-weight: bold;\<newline>'' @
     ascii ''            color: #7c3aed;\<newline>'' @
     ascii ''        }\<newline>'' @
     ascii ''        \<newline>'' @
     ascii ''        .riesgo-valor {\<newline>'' @
     ascii ''            font-size: 24pt;\<newline>'' @
     ascii ''            font-weight: bold;\<newline>'' @
     ascii ''        }\<newline>'' @
     ascii ''        \<newline>'' @
     ascii ''        .texto-analisis {\<newline>'' @
     ascii ''            background-color: #f9fafb;\<newline>'' @
     ascii ''            padding: 15px;\<newline>'' @
     ascii ''            border-left: 4px solid #7c3aed;\<newline>'' @
     ascii ''            border-radius: 5px;\<newline>'' @
     ascii ''            font-size: 10pt;\<newline>'' @
     ascii ''            line-height: 1.8;\<newline>'' @
     ascii ''        }\<newline>'' @
     ascii ''        \<newline>'' @
     ascii ''        .tabla-marcas {\<newline>'' @
     ascii ''            width: 100%;\<newline>'' @
     ascii ''            border-collapse: collapse;\<newline>'' @
     ascii ''            font-size: 9pt;\<newline>'' @
     ascii ''        }\<newline>'' @
     ascii ''        \<newline>'' @
     ascii ''        .tabla-marcas thead {\<newline>'' @
     ascii ''            background-color: #7c3aed;\<newline>'' @
     ascii ''            color: white;\<newline>'' @
     ascii ''        }\<newline>'' @
     ascii ''        \<newline>'' @
     ascii ''        .tabla-marcas th {\<newline>'' @
     ascii ''            padding: 10px 8px;\<newline>'' @
     ascii ''            text-align: left;\<newline>'' @
     ascii ''        }\<newline>'' @
     ascii ''        \<newline>'' @
     ascii ''        .tabla-marcas td {\<newline>'' @
     ascii ''            padding: 8px;\<newline>'' @
     ascii ''            border-bottom: 1px solid #e5e7eb;\<newline>'' @
     ascii ''        }\<newline>'' @
     ascii ''        \<newline>'' @
     ascii ''        .tabla-marcas tbody tr:nth-child(even) {\<newline>'' @
     ascii ''            background-color: #f9fafb;\<newline>'' @
     ascii ''        }\<newline>'' @
     ascii ''        \<newline>'' @
     ascii ''        .lista-items {\<newline>'' @
     ascii ''            list-style: none;\<newline>'' @
     ascii ''            padding: 0;\<newline>'' @
     ascii ''        }\<newline>'' @
     ascii ''        \<newline>'' @
     ascii ''        .lista-items li {\<newline>'' @
     ascii ''            margin-bottom: 10px;\<newline>'' @
     ascii ''            padding-left: 30px;\<newline>'' @
     ascii ''            position: relative;\<newline>'' @
     ascii ''        }\<newline>'' @
     ascii ''        \<newline>'' @
     ascii ''        .lista-items .icono {\<newline>'' @
     ascii ''            position: absolute;\<newline>'' @
     ascii ''            left: 0;\<newline>'' @
     ascii ''            font-size: 14pt;\<newline>'' @
     ascii ''        }\<newline>'' @
     ascii ''        \<newline>'' @
     ascii ''        .recomendaciones {\<newline>'' @
     ascii ''            background-color: #fef3c7;\<newline>'' @
     ascii ''            padding: 20px;\<newline>'' @
     ascii ''            border-radius: 8px;\<newline>'' @
     ascii ''            border-left: 5px solid #f59e0b;\<newline>'' @
     ascii ''        }\<newline>'' @
     ascii ''        \<newline>'' @
     ascii ''        .lista-recomendaciones {\<newline>'' @
     ascii ''            padding-left: 0;\<newline>'' @
     ascii ''            list-style: none;\<newline>'' @
     ascii ''        }\<newline>'' @
     ascii ''        \<newline>'' @
     ascii ''        .lista-recomendaciones li {\<newline>'' @
     ascii ''            margin-bottom: 12px;\<newline>'' @
     ascii ''        }\<newline>'' @
     ascii ''        \<newline>'' @
     ascii ''        .lista-recomendaciones strong {\<newline>'' @
     ascii ''            color: #f59e0b;\<newline>'' @
     ascii ''        }\<newline>'' @
     ascii ''        \<newline>'' @
     ascii ''        .footer {\<newline>'' @
     ascii ''            margin-top: 40px;\<newline>'' @
     ascii ''            padding-top: 20px;\<newline>'' @
     ascii ''            border-top: 2px solid #e5e7eb;\<newline>'' @
     ascii ''            text-align: center;\<newline>'' @
     ascii ''            font-size: 9pt;\<newline>'' @
     ascii ''            color: #6b7280;\<newline>'' @
     ascii ''        }\<newline>'' @
     ascii ''        ''\<close>

section \<open>The report generator\<close>

record generador_pdf =
  pdf_folder :: pystr
  logo_path :: "pystr option"

subsection \<open>The table of conflicting marks\<close>

text \<open>Lines 210 to 212: a holder of more than 40 characters is cut.\<close>

definition truncar_titular :: "pyval \<Rightarrow> error + pyval" where
  "truncar_titular titular =
     ebind (py_len titular) (\<lambda>n.
       if n > 40 then ebind (py_slice_to 40 titular) (\<lambda>t. py_add_str t (ascii ''...''))
       else Inr titular)"

text \<open>The body of the loop of \<^verbatim>\<open>_generar_tabla_marcas\<close>: the text one entry adds.\<close>

definition fila :: "pyenv \<Rightarrow> nat \<Rightarrow> pyval \<Rightarrow> error + pystr" where
  "fila E i marca =
     ebind (val_get marca (ascii ''denominacion'') (VStr (ascii ''N/A''))) (\<lambda>denominacion.
     ebind (val_get marca (ascii ''expediente'') (VStr (ascii ''N/A''))) (\<lambda>expediente.
     ebind (val_get marca (ascii ''titular'') (VStr (ascii ''No especificado''))) (\<lambda>titular.
     ebind (val_get marca (ascii ''clase'') (VStr (ascii ''N/A''))) (\<lambda>clase.
     ebind (val_get marca (ascii ''estado'') (VStr (ascii ''N/A''))) (\<lambda>estado.
     ebind (truncar_titular titular) (\<lambda>titular.
     Inr (fila_0 @ digits i @ fila_1 @ py_format E denominacion @ fila_2 @
          py_format E expediente @ fila_3 @ py_format E titular @ fila_4 @
          py_format E clase @ fila_5 @ py_format E estado @ fila_6)))))))"

text \<open>\<^verbatim>\<open>for i, marca in enumerate(..., 1): filas += ...\<close>\<close>

fun filas_loop :: "pyenv \<Rightarrow> nat \<Rightarrow> pyval list \<Rightarrow> pystr \<Rightarrow> error + pystr" where
  "filas_loop E i [] filas = Inr filas"
| "filas_loop E i (marca # ms) filas =
     ebind (fila E i marca) (\<lambda>f. filas_loop E (i + 1) ms (filas @ f))"

definition generar_tabla_marcas :: "pyenv \<Rightarrow> pyval \<Rightarrow> error + pystr" where
  "generar_tabla_marcas E marcas =
     (if \<not> truthy marcas then Inr sin_marcas
      else ebind (py_len marcas) (\<lambda>n.
        if n = 0 then Inr sin_marcas
        else ebind (py_slice_to 15 marcas) (\<lambda>primeras.
             ebind (py_iter primeras) (\<lambda>ms.
             ebind (filas_loop E 1 ms []) (\<lambda>filas.
             ebind (py_len marcas) (\<lambda>total.
             Inr (tabla_0 @ digits total @ tabla_1 @ filas @ tabla_2)))))))"

subsection \<open>The bullet lists and the recommendations\<close>

definition item_html :: "pyenv \<Rightarrow> pystr \<Rightarrow> pystr \<Rightarrow> pyval \<Rightarrow> pystr" where
  "item_html E color icono item =
     item_0 @ color @ item_1 @ icono @ item_2 @ py_format E item @ item_3"

definition generar_lista :: "pyenv \<Rightarrow> pystr \<Rightarrow> pyval \<Rightarrow> pystr \<Rightarrow> error + pystr" where
  "generar_lista E titulo items tipo =
     (if \<not> truthy items then Inr []
      else ebind (py_len items) (\<lambda>n.
        if n = 0 then Inr []
        else
          let icono = (if tipo = ascii ''riesgo'' then [9888] else [10003]);
              color = (if tipo = ascii ''riesgo'' then ascii ''#ef4444'' else ascii ''#10b981'')
          in ebind (py_iter items) (\<lambda>xs.
             let items_html = foldl (\<lambda>acc item. acc @ item_html E color icono item) [] xs
             in Inr (lista_0 @ titulo @ lista_1 @ items_html @ lista_2))))"

fun recs_loop :: "pyenv \<Rightarrow> nat \<Rightarrow> pyval list \<Rightarrow> pystr \<Rightarrow> pystr" where
  "recs_loop E i [] items_html = items_html"
| "recs_loop E i (r # rs) items_html =
     recs_loop E (i + 1) rs (items_html @ rec_0 @ digits i @ rec_1 @ py_format E r @ rec_2)"

definition generar_recomendaciones :: "pyenv \<Rightarrow> pyval \<Rightarrow> error + pystr" where
  "generar_recomendaciones E recomendaciones =
     (if \<not> truthy recomendaciones then Inr []
      else ebind (py_len recomendaciones) (\<lambda>n.
        if n = 0 then Inr []
        else ebind (py_iter recomendaciones) (\<lambda>rs.
             Inr (recs_0 @ recs_loop E 1 rs [] @ recs_1))))"

subsection \<open>The document\<close>

text \<open>
  Lines 108 to 113: a list field that arrives as one string is split at line breaks;
  blank lines are dropped, and each line is stripped of the characters \<open>cs\<close> and then
  of white space.
\<close>

definition normaliza_lista :: "pyenv \<Rightarrow> pystr \<Rightarrow> pyval \<Rightarrow> pyval" where
  "normaliza_lista E cs v =
     (case v of
        VStr s \<Rightarrow>
          VList (map (\<lambda>f. VStr (strip E (strip_chars cs f)))
                     (filter (\<lambda>f. strip E f \<noteq> []) (split_char 10 s)))
      | _ \<Rightarrow> v)"

definition vinetas :: pystr where
  "vinetas = [8226, 32]"

definition numeracion :: pystr where
  "numeracion = ascii ''1234567890. ''"

text \<open>Lines 116 to 120: the colour of the risk level.\<close>

definition color_riesgo :: "pyenv \<Rightarrow> pyval \<Rightarrow> error + pystr" where
  "color_riesgo E nivel_riesgo =
     ebind (val_upper E nivel_riesgo) (\<lambda>u.
       Inr (case map_of [(ascii ''BAJO'', ascii ''#10b981''),
                         (ascii ''MEDIO'', ascii ''#f59e0b''),
                         (ascii ''ALTO'', ascii ''#ef4444'')] u of
              None \<Rightarrow> ascii ''#6b7280''
            | Some c \<Rightarrow> c))"

definition meses :: "pystr list" where
  "meses = map ascii [''enero'', ''febrero'', ''marzo'', ''abril'', ''mayo'', ''junio'',
     ''julio'', ''agosto'', ''septiembre'', ''octubre'', ''noviembre'', ''diciembre'']"

definition fecha_analisis :: "datetime \<Rightarrow> error + pystr" where
  "fecha_analisis ahora =
     ebind (py_index meses (int (month ahora) - 1)) (\<lambda>mes.
       Inr (digits (day ahora) @ ascii '' de '' @ mes @ ascii '' de '' @ digits (year ahora)))"

text \<open>The f-string of lines 122 to 188, as a function of the texts it interpolates.\<close>

definition plantilla_html ::
  "pystr \<Rightarrow> pystr \<Rightarrow> pystr \<Rightarrow> pystr \<Rightarrow> pystr \<Rightarrow> pystr \<Rightarrow> pystr \<Rightarrow> pystr \<Rightarrow>
   pystr \<Rightarrow> pystr \<Rightarrow> pystr \<Rightarrow> pystr \<Rightarrow> pystr" where
  "plantilla_html marca fecha cliente clase viabilidad color nivel texto tabla
       lista_riesgo lista_favorables recs =
     html_0 @ marca @ html_1 @ marca @ html_2 @ fecha @ html_3 @ cliente @ html_4 @
     clase @ html_5 @ viabilidad @ html_6 @ color @ html_7 @ color @ html_8 @ nivel @
     html_9 @ texto @ html_10 @ tabla @ html_11 @ lista_riesgo @ html_12 @
     lista_favorables @ html_13 @ recs @ html_14"

definition generar_html :: "pyenv \<Rightarrow> datetime \<Rightarrow> pydict \<Rightarrow> pydict \<Rightarrow> error + pystr" where
  "generar_html E ahora lead analisis =
     (let marca = dict_get lead (ascii ''marca'') (VStr (ascii ''N/A''));
          cliente = dict_get lead (ascii ''nombre'') (VStr (ascii ''Cliente''));
          clase = dict_get lead (ascii ''clase_sugerida'') (VStr (ascii ''N/A''))
      in
      ebind (fecha_analisis ahora) (\<lambda>fecha.
      let viabilidad = dict_get analisis (ascii ''porcentaje_viabilidad'') (VInt 0);
          nivel_riesgo = dict_get analisis (ascii ''nivel_riesgo'') (VStr (ascii ''MEDIO''));
          analisis_principal = dict_get analisis (ascii ''analisis_principal'') (VStr []);
          factores_riesgo = dict_get analisis (ascii ''factores_riesgo'') (VList []);
          factores_favorables = dict_get analisis (ascii ''factores_favorables'') (VList []);
          recomendaciones = dict_get analisis (ascii ''recomendaciones'') (VList []);
          marcas_conflictivas = dict_get analisis (ascii ''marcas_conflictivas'') (VList []);
          factores_riesgo = normaliza_lista E vinetas factores_riesgo;
          factores_favorables = normaliza_lista E vinetas factores_favorables;
          recomendaciones = normaliza_lista E numeracion recomendaciones
      in
      ebind (color_riesgo E nivel_riesgo) (\<lambda>color.
      ebind (val_replace_nl analisis_principal) (\<lambda>texto.
      ebind (generar_tabla_marcas E marcas_conflictivas) (\<lambda>tabla.
      ebind (generar_lista E (ascii ''Factores de Riesgo'') factores_riesgo (ascii ''riesgo''))
        (\<lambda>lista_riesgo.
      ebind (generar_lista E (ascii ''Factores Favorables'') factores_favorables
               (ascii ''favorable'')) (\<lambda>lista_favorables.
      ebind (generar_recomendaciones E recomendaciones) (\<lambda>recs.
      Inr (plantilla_html (py_format E marca) fecha (py_format E cliente)
             (py_format E clase) (py_format E viabilidad) color (py_format E nivel_riesgo)
             texto tabla lista_riesgo lista_favorables recs)))))))))"

subsection \<open>The public operation\<close>

text \<open>
  Line 49: the characters of the brand that are alphanumeric, a space, a hyphen or an
  underscore are kept. The brand is whatever the dictionary holds, so the comprehension
  iterates over it as Python does, and \<^verbatim>\<open>isalnum\<close> exists on strings only.
\<close>

fun filtra :: "pyenv \<Rightarrow> pyval list \<Rightarrow> error + pystr" where
  "filtra E [] = Inr []"
| "filtra E (VStr c # cs) =
     ebind (filtra E cs) (\<lambda>r.
       Inr (if str_isalnum E c \<or> c \<in> {ascii '' '', ascii ''-'', ascii ''_''}
            then c @ r else r))"
| "filtra E (_ # cs) = Inl AttributeError"

text \<open>Lines 49 and 50.\<close>

definition marca_limpia :: "pyenv \<Rightarrow> pydict \<Rightarrow> error + pystr" where
  "marca_limpia E lead =
     ebind (py_iter (dict_get lead (ascii ''marca'') (VStr (ascii ''marca'')))) (\<lambda>cs.
     ebind (filtra E cs) (\<lambda>s.
     Inr (take 50 (replace_char 32 (ascii ''_'') (strip E s)))))"

definition nombre_archivo :: "pystr \<Rightarrow> datetime \<Rightarrow> pystr" where
  "nombre_archivo limpia t =
     ascii ''reporte_'' @ limpia @ ascii ''_'' @ strftime_ts t @ ascii ''.pdf''"

text \<open>\<^verbatim>\<open>os.path.join(a, b)\<close> of \<^verbatim>\<open>posixpath\<close>.\<close>

definition path_join :: "pystr \<Rightarrow> pystr \<Rightarrow> pystr" where
  "path_join a b =
     (if b \<noteq> [] \<and> hd b = 47 then b
      else if a = [] \<or> last a = 47 then a @ b
      else a @ [47] @ b)"

datatype log_entry = LogInfo pystr | LogError error

text \<open>
  \<^verbatim>\<open>generar_reporte\<close>. The renderer (\<^verbatim>\<open>FontConfiguration\<close>, \<^verbatim>\<open>HTML(...).write_pdf\<close>)
  is a parameter: given the HTML, the style sheet and the path, it fails with an
  exception or succeeds. The clock is read twice, for the file name and for the date of
  the document. The result is the log and the value returned: the path or \<^verbatim>\<open>None\<close>.
\<close>

definition generar_reporte ::
  "generador_pdf \<Rightarrow> pyenv \<Rightarrow> (pystr \<Rightarrow> pystr \<Rightarrow> pystr \<Rightarrow> error option) \<Rightarrow>
   datetime \<Rightarrow> datetime \<Rightarrow> pydict \<Rightarrow> pydict \<Rightarrow> log_entry list \<times> pystr option" where
  "generar_reporte self E write_pdf t1 t2 lead analisis =
     (case marca_limpia E lead of
        Inl e \<Rightarrow> ([LogError e], None)
      | Inr limpia \<Rightarrow>
          let filename = nombre_archivo limpia t1;
              filepath = path_join (pdf_folder self) filename;
              generando = LogInfo (ascii ''[PDF] Generando: '' @ filename)
          in (case generar_html E t2 lead analisis of
                Inl e \<Rightarrow> ([generando, LogError e], None)
              | Inr html_content \<Rightarrow>
                  (case write_pdf html_content generar_css filepath of
                     Some e \<Rightarrow> ([generando, LogError e], None)
                   | None \<Rightarrow>
                       ([generando, LogInfo ([9989] @ ascii '' PDF generado: '' @ filename)],
                        Some filepath))))"

section \<open>Notions used by the properties\<close>

text \<open>The text \<open>p\<close> occurs in \<open>s\<close>.\<close>

fun contiene :: "pystr \<Rightarrow> pystr \<Rightarrow> bool" where
  "contiene [] p = (p = [])"
| "contiene (x # xs) p = (take (length p) (x # xs) = p \<or> contiene xs p)"

text \<open>
  \<open>s\<close> is the level \<open>nivel\<close> (written in capital ASCII letters) up to the case of
  its letters.
\<close>

definition sin_caja :: "pystr \<Rightarrow> pystr \<Rightarrow> bool" where
  "sin_caja s nivel = list_all2 (\<lambda>c d. c = d \<or> c = d + 32) s nivel"

text \<open>The row of an entry that has none of its fields.\<close>

definition fila_sin_datos :: "nat \<Rightarrow> pystr" where
  "fila_sin_datos i =
     fila_0 @ digits i @ fila_1 @ ascii ''N/A'' @ fila_2 @ ascii ''N/A'' @ fila_3 @
     ascii ''No especificado'' @ fila_4 @ ascii ''N/A'' @ fila_5 @ ascii ''N/A'' @ fila_6"

text \<open>The characters that line 49 keeps.\<close>

definition admisible :: "pyenv \<Rightarrow> pychar \<Rightarrow> bool" where
  "admisible E c = (isalnum_char E c \<or> c = 32 \<or> c = 45 \<or> c = 95)"

subsection \<open>Sample inputs\<close>

text \<open>An interpreter that knows no letter, space or case mapping beyond Latin-1.\<close>

definition E_latin1 :: pyenv where
  "E_latin1 = \<lparr>alnum_hi = (\<lambda>_. False), space_hi = (\<lambda>_. False),
                 upper_hi = (\<lambda>c. [c]), repr_cont = (\<lambda>_. [])\<rparr>"

definition t_ejemplo :: datetime where
  "t_ejemplo = \<lparr>year = 2024, month = 3, day = 5, hour = 9, minute = 7, second = 30\<rparr>"

definition lead_co :: pydict where
  "lead_co = [(ascii ''marca'', VStr (ascii ''Mi Marca-1 & Co.''))]"

text \<open>The lead and the analysis of the end-to-end example.\<close>

definition lead_ejemplo :: pydict where
  "lead_ejemplo =
     [(ascii ''marca'', VStr (ascii ''Caf'' @ [233] @ ascii '' Sol!'')),
      (ascii ''nombre'', VStr (ascii ''Juan P'' @ [233] @ ascii ''rez'')),
      (ascii ''clase_sugerida'', VStr (ascii ''30''))]"

definition analisis_ejemplo :: pydict where
  "analisis_ejemplo =
     [(ascii ''porcentaje_viabilidad'', VInt 72),
      (ascii ''nivel_riesgo'', VStr (ascii ''ALTO'')),
      (ascii ''marcas_conflictivas'', VList [])]"

definition gen_ejemplo :: generador_pdf where
  "gen_ejemplo = \<lparr>pdf_folder = ascii ''/pdfs'', logo_path = None\<rparr>"

text \<open>The document of the example, given the date.\<close>

definition html_ejemplo :: "pystr \<Rightarrow> pystr" where
  "html_ejemplo fecha =
     plantilla_html (ascii ''Caf'' @ [233] @ ascii '' Sol!'') fecha
       (ascii ''Juan P'' @ [233] @ ascii ''rez'') (ascii ''30'') (ascii ''72'')
       (ascii ''#ef4444'') (ascii ''ALTO'') [] sin_marcas [] [] []"

text \<open>The document of a lead and an analysis that have no field at all, given the date.\<close>

definition html_sin_datos :: "pystr \<Rightarrow> pystr" where
  "html_sin_datos fecha =
     plantilla_html (ascii ''N/A'') fecha (ascii ''Cliente'') (ascii ''N/A'') (ascii ''0'')
       (ascii ''#f59e0b'') (ascii ''MEDIO'') [] sin_marcas [] [] []"

subsection \<open>Fields that are absent or of the expected type\<close>

text \<open>The field \<open>k\<close> of \<open>d\<close> is absent or satisfies \<open>P\<close>.\<close>

definition campo :: "pydict \<Rightarrow> pystr \<Rightarrow> (pyval \<Rightarrow> bool) \<Rightarrow> bool" where
  "campo d k P = (case map_of d k of None \<Rightarrow> True | Some v \<Rightarrow> P v)"

fun es_texto :: "pyval \<Rightarrow> bool" where
  "es_texto (VStr s) = True"
| "es_texto _ = False"

text \<open>A list field: a list, or one string with line breaks.\<close>

fun es_lista :: "pyval \<Rightarrow> bool" where
  "es_lista (VList xs) = True"
| "es_lista (VStr s) = True"
| "es_lista _ = False"

text \<open>A conflicting mark: a dictionary whose holder, if present, is a string.\<close>

fun es_marca :: "pyval \<Rightarrow> bool" where
  "es_marca (VDict d) = campo d (ascii ''titular'') es_texto"
| "es_marca _ = False"

fun es_marcas :: "pyval \<Rightarrow> bool" where
  "es_marcas (VList ms) = list_all es_marca ms"
| "es_marcas _ = False"

definition bien_formados :: "pydict \<Rightarrow> pydict \<Rightarrow> bool" where
  "bien_formados lead analisis =
     (campo lead (ascii ''marca'') es_texto \<and>
      campo analisis (ascii ''nivel_riesgo'') es_texto \<and>
      campo analisis (ascii ''analisis_principal'') es_texto \<and>
      campo analisis (ascii ''factores_riesgo'') es_lista \<and>
      campo analisis (ascii ''factores_favorables'') es_lista \<and>
      campo analisis (ascii ''recomendaciones'') es_lista \<and>
      campo analisis (ascii ''marcas_conflictivas'') es_marcas)"

text \<open>The fallbacks of lines 88 to 105 and 204 to 208, as dictionaries.\<close>

definition lead_por_defecto :: pydict where
  "lead_por_defecto =
     [(ascii ''marca'', VStr (ascii ''N/A'')),
      (ascii ''nombre'', VStr (ascii ''Cliente'')),
      (ascii ''clase_sugerida'', VStr (ascii ''N/A''))]"

definition analisis_por_defecto :: pydict where
  "analisis_por_defecto =
     [(ascii ''porcentaje_viabilidad'', VInt 0),
      (ascii ''nivel_riesgo'', VStr (ascii ''MEDIO'')),
      (ascii ''analisis_principal'', VStr []),
      (ascii ''factores_riesgo'', VList []),
      (ascii ''factores_favorables'', VList []),
      (ascii ''recomendaciones'', VList []),
      (ascii ''marcas_conflictivas'', VList [])]"

definition marca_por_defecto :: pydict where
  "marca_por_defecto =
     [(ascii ''denominacion'', VStr (ascii ''N/A'')),
      (ascii ''expediente'', VStr (ascii ''N/A'')),
      (ascii ''titular'', VStr (ascii ''No especificado'')),
      (ascii ''clase'', VStr (ascii ''N/A'')),
      (ascii ''estado'', VStr (ascii ''N/A''))]"


section \<open>Basic facts\<close>

lemma ebind_Inr [simp]: "ebind (Inr x) f = f x"
  by (simp add: ebind_def)

lemma ebind_Inl [simp]: "ebind (Inl e) f = Inl e"
  by (simp add: ebind_def)

lemma truncar_titular_str:
  "truncar_titular (VStr t) = Inr (VStr (if 40 < length t then take 40 t @ ascii ''...'' else t))"
  by (simp add: truncar_titular_def)

text \<open>The loop over the entries appends the rows one after the other.\<close>

lemma filas_loop_rows:
  "length rows = length ms \<Longrightarrow>
   (\<forall>k<length ms. fila E (i + k) (ms ! k) = Inr (rows ! k)) \<Longrightarrow>
   filas_loop E i ms acc = Inr (acc @ concat rows)"
proof (induction ms arbitrary: i acc rows)
  case Nil
  then show ?case by simp
next
  case (Cons m ms)
  then obtain r rs where rows: "rows = r # rs"
    by (cases rows) auto
  from Cons.prems(2) rows have h: "fila E i m = Inr r"
    by (metis add.right_neutral length_greater_0_conv list.distinct(1) nth_Cons_0)
  have "\<forall>k<length ms. fila E (i + 1 + k) (ms ! k) = Inr (rs ! k)"
  proof (intro allI impI)
    fix k assume "k < length ms"
    then have "fila E (i + Suc k) ((m # ms) ! Suc k) = Inr (rows ! Suc k)"
      using Cons.prems(2) by (metis Suc_less_eq length_Cons)
    then show "fila E (i + 1 + k) (ms ! k) = Inr (rs ! k)"
      by (simp add: rows)
  qed
  moreover have "length rs = length ms"
    using Cons.prems(1) rows by simp
  ultimately have "filas_loop E (i + 1) ms (acc @ r) = Inr ((acc @ r) @ concat rs)"
    by (rule Cons.IH [rotated])
  then show ?case
    by (simp add: h rows)
qed

lemma tabla_lista_no_vacia:
  "ms \<noteq> [] \<Longrightarrow>
   generar_tabla_marcas E (VList ms) =
     ebind (filas_loop E 1 (take 15 ms) [])
       (\<lambda>filas. Inr (tabla_0 @ digits (length ms) @ tabla_1 @ filas @ tabla_2))"
  by (simp add: generar_tabla_marcas_def)

lemma tabla_filas:
  assumes "ms \<noteq> []" and "length rows = min 15 (length ms)"
    and "\<forall>k<length rows. fila E (Suc k) (ms ! k) = Inr (rows ! k)"
  shows "generar_tabla_marcas E (VList ms) =
           Inr (tabla_0 @ digits (length ms) @ tabla_1 @ concat rows @ tabla_2)"
proof -
  have "filas_loop E 1 (take 15 ms) [] = Inr ([] @ concat rows)"
  proof (rule filas_loop_rows)
    show "length rows = length (take 15 ms)"
      using assms(2) by (simp add: min.commute)
    show "\<forall>k<length (take 15 ms). fila E (1 + k) (take 15 ms ! k) = Inr (rows ! k)"
      using assms(2,3) by simp
  qed
  then show ?thesis
    by (simp add: tabla_lista_no_vacia [OF assms(1)])
qed

lemma fila_dict_vacio: "fila E i (VDict []) = Inr (fila_sin_datos i)"
  by (simp add: fila_def dict_get_def truncar_titular_def ascii_def fila_sin_datos_def)


lemma tabla_16_sin_datos:
  "generar_tabla_marcas E (VList (replicate 16 (VDict []))) =
     Inr (tabla_0 @ digits 16 @ tabla_1 @
          concat (map (\<lambda>k. fila_sin_datos (Suc k)) [0..<15]) @ tabla_2)"
proof -
  have "generar_tabla_marcas E (VList (replicate 16 (VDict []))) =
     Inr (tabla_0 @ digits (length (replicate 16 (VDict []))) @ tabla_1 @
          concat (map (\<lambda>k. fila_sin_datos (Suc k)) [0..<15]) @ tabla_2)"
    by (rule tabla_filas) (simp_all add: fila_dict_vacio)
  then show ?thesis by simp
qed

text \<open>A level written in any mix of ASCII cases is upper-cased to the level.\<close>

lemma upper_sin_caja:
  "sin_caja s nivel \<Longrightarrow> list_all (\<lambda>d. 65 \<le> d \<and> d \<le> 90) nivel \<Longrightarrow> upper E s = nivel"
  unfolding sin_caja_def
proof (induction s nivel rule: list_all2_induct)
  case Nil
  then show ?case by (simp add: upper_def)
next
  case (Cons c s d nivel)
  then have "upper_char E c = [d]"
    by (auto simp: upper_char_def)
  moreover have "upper E s = nivel"
    using Cons by simp
  ultimately show ?case
    by (simp add: upper_def)
qed

lemma color_por_upper:
  "color_riesgo E (VStr s) =
     Inr (if upper E s = ascii ''BAJO'' then ascii ''#10b981''
          else if upper E s = ascii ''MEDIO'' then ascii ''#f59e0b''
          else if upper E s = ascii ''ALTO'' then ascii ''#ef4444''
          else ascii ''#6b7280'')"
  by (simp add: color_riesgo_def)


subsection \<open>The sanitised brand\<close>

lemma filtra_chars:
  "filtra E cs = Inr s \<Longrightarrow> \<forall>c\<in>set s. admisible E c"
proof (induction E cs arbitrary: s rule: filtra.induct)
  case (1 E)
  then show ?case by simp
next
  case (2 E c cs)
  then obtain r where r: "filtra E cs = Inr r"
    by (cases "filtra E cs") auto
  with 2 have ih: "\<forall>c\<in>set r. admisible E c" by blast
  have "\<forall>x\<in>set c. admisible E x"
    if "str_isalnum E c \<or> c \<in> {ascii '' '', ascii ''-'', ascii ''_''}"
    using that by (auto simp: str_isalnum_def list_all_iff admisible_def ascii_def)
  with 2(2) r ih show ?case
    by (auto split: if_splits)
qed simp_all

lemma filtra_str:
  "filtra E (map (\<lambda>c. VStr [c]) m) = Inr (filter (admisible E) m)"
  by (induction m) (auto simp: str_isalnum_def admisible_def ascii_def)

lemma set_strip_by: "set (strip_by p s) \<subseteq> set s"
  unfolding strip_by_def
  by (metis set_dropWhileD set_rev subsetI)

lemma set_replace_espacio:
  "x \<in> set (replace_char 32 (ascii ''_'') s) \<Longrightarrow> x \<noteq> 32 \<and> (x \<in> set s \<or> x = 95)"
  by (auto simp: replace_char_def ascii_def split: if_splits)

lemma marca_limpia_chars:
  assumes "marca_limpia E lead = Inr s"
  shows "(\<forall>c\<in>set s. isalnum_char E c \<or> c = 45 \<or> c = 95) \<and> length s \<le> 50"
proof -
  from assms obtain cs r where cs: "filtra E cs = Inr r"
    and s: "s = take 50 (replace_char 32 (ascii ''_'') (strip E r))"
    unfolding marca_limpia_def
    by (cases "py_iter (dict_get lead (ascii ''marca'') (VStr (ascii ''marca'')))";
        cases "filtra E (projr (py_iter (dict_get lead (ascii ''marca'') (VStr (ascii ''marca'')))))")
       auto
  have r: "\<forall>c\<in>set r. admisible E c"
    using cs by (rule filtra_chars)
  have "isalnum_char E c \<or> c = 45 \<or> c = 95" if "c \<in> set s" for c
  proof -
    from that s have "c \<in> set (replace_char 32 (ascii ''_'') (strip E r))"
      by (auto dest: in_set_takeD)
    then have "c \<noteq> 32" and "c \<in> set (strip E r) \<or> c = 95"
      by (auto dest: set_replace_espacio)
    then show ?thesis
      using r set_strip_by [of "isspace_char E" r]
      by (auto simp: strip_def admisible_def)
  qed
  then show ?thesis using s by simp
qed

lemma marca_limpia_str:
  "map_of lead (ascii ''marca'') = Some (VStr m) \<Longrightarrow>
   marca_limpia E lead =
     Inr (take 50 (replace_char 32 (ascii ''_'') (strip E (filter (admisible E) m))))"
  by (simp add: marca_limpia_def dict_get_def filtra_str)

lemma marca_limpia_ausente:
  "map_of lead (ascii ''marca'') = None \<Longrightarrow> marca_limpia E lead = Inr (ascii ''marca'')"
  by (simp add: marca_limpia_def dict_get_def ascii_def str_isalnum_def isalnum_char_def
      strip_def strip_by_def isspace_char_def replace_char_def)

lemma strip_solo_espacios:
  assumes "list_all (\<lambda>c. c = 32) r"
  shows "strip E r = []"
proof -
  from assms have "\<forall>c\<in>set r. isspace_char E c"
    by (auto simp: list_all_iff isspace_char_def)
  then show ?thesis
    by (auto simp: strip_def strip_by_def dest: set_dropWhileD)
qed

lemma marca_limpia_co: "marca_limpia E lead_co = Inr (ascii ''Mi_Marca-1__Co'')"
  by (simp add: marca_limpia_str lead_co_def admisible_def isalnum_char_def strip_def
      strip_by_def isspace_char_def replace_char_def ascii_def)


subsection \<open>The example and the public operation\<close>

lemma marca_limpia_ejemplo:
  "marca_limpia E lead_ejemplo = Inr (ascii ''Caf'' @ [233] @ ascii ''_Sol'')"
  by (simp add: marca_limpia_str lead_ejemplo_def admisible_def isalnum_char_def strip_def
      strip_by_def isspace_char_def replace_char_def ascii_def)

lemma generar_html_ejemplo:
  "fecha_analisis t = Inr fecha \<Longrightarrow>
   generar_html E t lead_ejemplo analisis_ejemplo = Inr (html_ejemplo fecha)"
  by (simp add: generar_html_def lead_ejemplo_def analisis_ejemplo_def dict_get_def
      normaliza_lista_def color_por_upper upper_def upper_char_def generar_tabla_marcas_def
      generar_lista_def generar_recomendaciones_def html_ejemplo_def replace_char_def
      str_int_def digits.simps ascii_def)

lemma reporte_exito:
  assumes "marca_limpia E lead = Inr limpia" and "generar_html E t2 lead analisis = Inr h"
    and "write_pdf h generar_css (path_join (pdf_folder self) (nombre_archivo limpia t1)) = None"
  shows "generar_reporte self E write_pdf t1 t2 lead analisis =
     ([LogInfo (ascii ''[PDF] Generando: '' @ nombre_archivo limpia t1),
       LogInfo ([9989] @ ascii '' PDF generado: '' @ nombre_archivo limpia t1)],
      Some (path_join (pdf_folder self) (nombre_archivo limpia t1)))"
  using assms by (simp add: generar_reporte_def Let_def)

lemma reporte_ejemplo:
  assumes "fecha_analisis t2 = Inr fecha" and "\<forall>h p. write_pdf h generar_css p = None"
  shows "snd (generar_reporte self E write_pdf t1 t2 lead_ejemplo analisis_ejemplo) =
     Some (path_join (pdf_folder self)
             (ascii ''reporte_Caf'' @ [233] @ ascii ''_Sol_'' @ strftime_ts t1 @ ascii ''.pdf''))"
proof -
  have "generar_reporte self E write_pdf t1 t2 lead_ejemplo analisis_ejemplo =
     ([LogInfo (ascii ''[PDF] Generando: '' @ nombre_archivo (ascii ''Caf'' @ [233] @ ascii ''_Sol'') t1),
       LogInfo ([9989] @ ascii '' PDF generado: '' @ nombre_archivo (ascii ''Caf'' @ [233] @ ascii ''_Sol'') t1)],
      Some (path_join (pdf_folder self) (nombre_archivo (ascii ''Caf'' @ [233] @ ascii ''_Sol'') t1)))"
    using marca_limpia_ejemplo generar_html_ejemplo [OF assms(1)] assms(2)
    by (intro reporte_exito) auto
  then show ?thesis
    by (simp add: nombre_archivo_def ascii_def)
qed

lemma fecha_t_ejemplo: "fecha_analisis t_ejemplo = Inr (ascii ''5 de marzo de 2024'')"
  by (simp add: fecha_analisis_def py_index_def meses_def t_ejemplo_def digits.simps ascii_def)

lemma ts_t_ejemplo: "strftime_ts t_ejemplo = ascii ''20240305_090730''"
  by (simp add: strftime_ts_def zpad_def t_ejemplo_def digits.simps ascii_def)


text \<open>The two ways to fail after the name of the file is known.\<close>

lemma reporte_falla_html:
  assumes "marca_limpia E lead = Inr limpia" and "generar_html E t2 lead analisis = Inl e"
  shows "generar_reporte self E write_pdf t1 t2 lead analisis =
     ([LogInfo (ascii ''[PDF] Generando: '' @ nombre_archivo limpia t1), LogError e], None)"
  using assms by (simp add: generar_reporte_def Let_def)

lemma reporte_falla_render:
  assumes "marca_limpia E lead = Inr limpia" and "generar_html E t2 lead analisis = Inr h"
    and "write_pdf h generar_css (path_join (pdf_folder self) (nombre_archivo limpia t1)) =
           Some e"
  shows "generar_reporte self E write_pdf t1 t2 lead analisis =
     ([LogInfo (ascii ''[PDF] Generando: '' @ nombre_archivo limpia t1), LogError e], None)"
  using assms by (simp add: generar_reporte_def Let_def)

text \<open>Exceptions of the composition: a brand that is a number, a risk level that is one.\<close>

lemma marca_numero: "marca_limpia E [(ascii ''marca'', VInt 7)] = Inl TypeError"
  by (simp add: marca_limpia_def dict_get_def)

lemma nivel_numero:
  "fecha_analisis t = Inr fecha \<Longrightarrow>
   generar_html E t lead [(ascii ''nivel_riesgo'', VInt 3)] = Inl AttributeError"
  by (simp add: generar_html_def dict_get_def color_riesgo_def ascii_def)


subsection \<open>The document\<close>

lemma generar_html_forma:
  assumes "generar_html E t lead an = Inr h"
  shows "\<exists>fecha color texto tabla lr lf recs.
     generar_lista E (ascii ''Factores de Riesgo'')
       (normaliza_lista E vinetas (dict_get an (ascii ''factores_riesgo'') (VList [])))
       (ascii ''riesgo'') = Inr lr \<and>
     generar_lista E (ascii ''Factores Favorables'')
       (normaliza_lista E vinetas (dict_get an (ascii ''factores_favorables'') (VList [])))
       (ascii ''favorable'') = Inr lf \<and>
     generar_recomendaciones E
       (normaliza_lista E numeracion (dict_get an (ascii ''recomendaciones'') (VList []))) =
       Inr recs \<and>
     h = plantilla_html (py_format E (dict_get lead (ascii ''marca'') (VStr (ascii ''N/A''))))
           fecha (py_format E (dict_get lead (ascii ''nombre'') (VStr (ascii ''Cliente''))))
           (py_format E (dict_get lead (ascii ''clase_sugerida'') (VStr (ascii ''N/A''))))
           (py_format E (dict_get an (ascii ''porcentaje_viabilidad'') (VInt 0)))
           color (py_format E (dict_get an (ascii ''nivel_riesgo'') (VStr (ascii ''MEDIO''))))
           texto tabla lr lf recs"
  using assms unfolding generar_html_def Let_def ebind_def
  by (auto split: sum.splits)

lemma lista_vacia [simp]: "generar_lista E titulo (VList []) tipo = Inr []"
  by (simp add: generar_lista_def)

lemma recomendaciones_vacias [simp]: "generar_recomendaciones E (VList []) = Inr []"
  by (simp add: generar_recomendaciones_def)

lemma normaliza_lista_vacia [simp]: "normaliza_lista E cs (VList xs) = VList xs"
  by (simp add: normaliza_lista_def)

lemma generar_html_sin_datos:
  "fecha_analisis t = Inr fecha \<Longrightarrow> generar_html E t [] [] = Inr (html_sin_datos fecha)"
  by (simp add: generar_html_def dict_get_def color_por_upper upper_def upper_char_def
      generar_tabla_marcas_def html_sin_datos_def replace_char_def
      str_int_def digits.simps ascii_def)


subsection \<open>Absent fields\<close>

lemma dict_get_por_defecto:
  "map_of fb k = Some dflt \<Longrightarrow> dict_get (d @ fb) k dflt = dict_get d k dflt"
  by (simp add: dict_get_def map_add_def split: option.splits)

lemma campo_texto:
  "campo d k es_texto \<Longrightarrow> \<exists>s. dict_get d k (VStr dflt) = VStr s"
  by (cases "map_of d k"; cases "the (map_of d k)") (auto simp: campo_def dict_get_def)

lemma lista_de_lista: "\<exists>r. generar_lista E titulo (VList xs) tipo = Inr r"
  by (simp add: generar_lista_def Let_def)

lemma recomendaciones_de_lista: "\<exists>r. generar_recomendaciones E (VList xs) = Inr r"
  by (simp add: generar_recomendaciones_def)

lemma campo_lista:
  "campo d k es_lista \<Longrightarrow> \<exists>xs. normaliza_lista E cs (dict_get d k (VList [])) = VList xs"
  by (cases "map_of d k"; cases "the (map_of d k)")
     (auto simp: campo_def dict_get_def normaliza_lista_def)

lemma fila_de_marca: "es_marca m \<Longrightarrow> \<exists>r. fila E i m = Inr r"
proof (cases m)
  case (VDict d)
  assume "es_marca m"
  with VDict have "campo d (ascii ''titular'') es_texto" by simp
  then obtain s where "dict_get d (ascii ''titular'') (VStr (ascii ''No especificado'')) = VStr s"
    using campo_texto by blast
  with VDict show ?thesis
    by (simp add: fila_def truncar_titular_str)
qed simp_all

lemma filas_de_marcas: "list_all es_marca ms \<Longrightarrow> \<exists>r. filas_loop E i ms acc = Inr r"
proof (induction ms arbitrary: i acc)
  case Nil
  then show ?case by simp
next
  case (Cons m ms)
  then obtain f where "fila E i m = Inr f"
    using fila_de_marca by fastforce
  with Cons show ?case by simp
qed

lemma tabla_de_marcas: "es_marcas v \<Longrightarrow> \<exists>r. generar_tabla_marcas E v = Inr r"
proof (cases v)
  case (VList ms)
  assume "es_marcas v"
  with VList have ok: "list_all es_marca ms" by simp
  show ?thesis
  proof (cases "ms = []")
    case True
    with VList show ?thesis by (simp add: generar_tabla_marcas_def)
  next
    case False
    from ok have "list_all es_marca (take 15 ms)"
      by (auto simp: list_all_iff dest: in_set_takeD)
    then obtain f where "filas_loop E 1 (take 15 ms) [] = Inr f"
      using filas_de_marcas by blast
    with VList False show ?thesis
      by (simp add: tabla_lista_no_vacia)
  qed
qed simp_all

lemma campo_marcas:
  "campo d k es_marcas \<Longrightarrow> es_marcas (dict_get d k (VList []))"
  by (cases "map_of d k") (auto simp: campo_def dict_get_def)

lemma marca_limpia_de_texto:
  "campo lead (ascii ''marca'') es_texto \<Longrightarrow> \<exists>l. marca_limpia E lead = Inr l"
proof (cases "map_of lead (ascii ''marca'')")
  case None
  then show ?thesis by (simp add: marca_limpia_ausente)
next
  case (Some v)
  assume "campo lead (ascii ''marca'') es_texto"
  with Some obtain m where "v = VStr m"
    by (cases v) (auto simp: campo_def)
  with Some show ?thesis by (simp add: marca_limpia_str)
qed

lemma generar_html_bien_formados:
  assumes "bien_formados lead an" and "fecha_analisis t = Inr fecha"
  shows "\<exists>h. generar_html E t lead an = Inr h"
proof -
  obtain n where n: "dict_get an (ascii ''nivel_riesgo'') (VStr (ascii ''MEDIO'')) = VStr n"
    using assms(1) campo_texto unfolding bien_formados_def by blast
  obtain a where a: "dict_get an (ascii ''analisis_principal'') (VStr []) = VStr a"
    using assms(1) campo_texto unfolding bien_formados_def by blast
  obtain fr where fr: "normaliza_lista E vinetas
      (dict_get an (ascii ''factores_riesgo'') (VList [])) = VList fr"
    using assms(1) campo_lista unfolding bien_formados_def by blast
  obtain ff where ff: "normaliza_lista E vinetas
      (dict_get an (ascii ''factores_favorables'') (VList [])) = VList ff"
    using assms(1) campo_lista unfolding bien_formados_def by blast
  obtain rc where rc: "normaliza_lista E numeracion
      (dict_get an (ascii ''recomendaciones'') (VList [])) = VList rc"
    using assms(1) campo_lista unfolding bien_formados_def by blast
  obtain tb where tb: "generar_tabla_marcas E
      (dict_get an (ascii ''marcas_conflictivas'') (VList [])) = Inr tb"
    using assms(1) campo_marcas tabla_de_marcas unfolding bien_formados_def by blast
  obtain lr where lr: "generar_lista E (ascii ''Factores de Riesgo'') (VList fr)
      (ascii ''riesgo'') = Inr lr"
    using lista_de_lista by blast
  obtain lf where lf: "generar_lista E (ascii ''Factores Favorables'') (VList ff)
      (ascii ''favorable'') = Inr lf"
    using lista_de_lista by blast
  obtain rs where rs: "generar_recomendaciones E (VList rc) = Inr rs"
    using recomendaciones_de_lista by blast
  show ?thesis
    unfolding generar_html_def Let_def
    by (simp add: assms(2) n a fr ff rc tb lr lf rs color_por_upper)
qed

lemma generar_html_por_defecto:
  "generar_html E t (lead @ lead_por_defecto) (an @ analisis_por_defecto) =
   generar_html E t lead an"
  unfolding generar_html_def
  by (simp add: dict_get_por_defecto lead_por_defecto_def analisis_por_defecto_def ascii_def)

lemma fila_por_defecto: "fila E i (VDict (d @ marca_por_defecto)) = fila E i (VDict d)"
  unfolding fila_def
  by (simp add: dict_get_por_defecto marca_por_defecto_def ascii_def)

lemma marca_limpia_por_defecto:
  "marca_limpia E (lead @ [(ascii ''marca'', VStr (ascii ''marca''))]) = marca_limpia E lead"
  unfolding marca_limpia_def
  by (simp add: dict_get_por_defecto)


section \<open>Failures of the public operation\<close>

text \<open>
  C1: For every lead and analysis, \<^verbatim>\<open>generar_reporte\<close> returns: either some step of the
  composition (the sanitising of the brand, the HTML) or the renderer raised an
  exception, and then the exception is the last entry of the log and the result is
  \<^verbatim>\<open>None\<close>; or no step raised, and the result is the path of the file.
\<close>

theorem errores_atrapados:
  "(\<exists>e. (marca_limpia E lead = Inl e \<or>
         (\<exists>l. marca_limpia E lead = Inr l \<and> generar_html E t2 lead analisis = Inl e) \<or>
         (\<exists>l h. marca_limpia E lead = Inr l \<and> generar_html E t2 lead analisis = Inr h \<and>
            write_pdf h generar_css (path_join (pdf_folder self) (nombre_archivo l t1)) = Some e)) \<and>
        snd (generar_reporte self E write_pdf t1 t2 lead analisis) = None \<and>
        last (fst (generar_reporte self E write_pdf t1 t2 lead analisis)) = LogError e) \<or>
   (\<exists>l h. marca_limpia E lead = Inr l \<and> generar_html E t2 lead analisis = Inr h \<and>
      write_pdf h generar_css (path_join (pdf_folder self) (nombre_archivo l t1)) = None \<and>
      snd (generar_reporte self E write_pdf t1 t2 lead analisis) =
        Some (path_join (pdf_folder self) (nombre_archivo l t1)))"
proof (cases "marca_limpia E lead")
  case (Inl e)
  then show ?thesis
    by (auto simp: generar_reporte_def Let_def)
next
  case l: (Inr l)
  show ?thesis
  proof (cases "generar_html E t2 lead analisis")
    case (Inl e)
    with l show ?thesis
      by (auto simp: generar_reporte_def Let_def)
  next
    case h: (Inr h)
    show ?thesis
    proof (cases "write_pdf h generar_css (path_join (pdf_folder self) (nombre_archivo l t1))")
      case None
      with l h show ?thesis
        by (auto simp: generar_reporte_def Let_def)
    next
      case (Some e)
      with l h show ?thesis
        by (auto simp: generar_reporte_def Let_def)
    qed
  qed
qed


section \<open>The name of the file\<close>

text \<open>
  C2 (as amended): Whenever a stem is produced it contains only alphanumeric characters
  (as \<^verbatim>\<open>str.isalnum\<close> decides), hyphens and underscores, and has at most 50 characters;
  for a brand that is a string the stem is the kept characters, stripped, with spaces
  replaced by underscores, cut at 50; the generic label \<^verbatim>\<open>marca\<close> is the stem when the
  lead has no brand at all; a brand of which nothing is kept gives the empty stem.
\<close>

theorem nombre_saneado:
  "(marca_limpia E lead1 = Inr s \<longrightarrow>
      (\<forall>c\<in>set s. isalnum_char E c \<or> c = 45 \<or> c = 95) \<and> length s \<le> 50) \<and>
   (map_of lead2 (ascii ''marca'') = Some (VStr m) \<longrightarrow>
      marca_limpia E lead2 =
        Inr (take 50 (replace_char 32 (ascii ''_'') (strip E (filter (admisible E) m))))) \<and>
   (map_of lead3 (ascii ''marca'') = None \<longrightarrow> marca_limpia E lead3 = Inr (ascii ''marca'')) \<and>
   (map_of lead4 (ascii ''marca'') = Some (VStr m4) \<and>
    list_all (\<lambda>c. \<not> isalnum_char E c \<and> c \<noteq> 45 \<and> c \<noteq> 95) m4 \<longrightarrow>
      marca_limpia E lead4 = Inr [])"
proof -
  have a: "marca_limpia E lead1 = Inr s \<longrightarrow>
      (\<forall>c\<in>set s. isalnum_char E c \<or> c = 45 \<or> c = 95) \<and> length s \<le> 50"
    using marca_limpia_chars by blast
  have b: "map_of lead2 (ascii ''marca'') = Some (VStr m) \<longrightarrow>
      marca_limpia E lead2 =
        Inr (take 50 (replace_char 32 (ascii ''_'') (strip E (filter (admisible E) m))))"
    using marca_limpia_str by blast
  have c: "map_of lead3 (ascii ''marca'') = None \<longrightarrow> marca_limpia E lead3 = Inr (ascii ''marca'')"
    using marca_limpia_ausente by blast
  have d: "map_of lead4 (ascii ''marca'') = Some (VStr m4) \<and>
    list_all (\<lambda>c. \<not> isalnum_char E c \<and> c \<noteq> 45 \<and> c \<noteq> 95) m4 \<longrightarrow>
      marca_limpia E lead4 = Inr []"
  proof
    assume h: "map_of lead4 (ascii ''marca'') = Some (VStr m4) \<and>
      list_all (\<lambda>c. \<not> isalnum_char E c \<and> c \<noteq> 45 \<and> c \<noteq> 95) m4"
    then have "list_all (\<lambda>c. c = 32) (filter (admisible E) m4)"
      by (auto simp: list_all_iff admisible_def)
    then have "strip E (filter (admisible E) m4) = []"
      by (rule strip_solo_espacios)
    with h show "marca_limpia E lead4 = Inr []"
      by (simp add: marca_limpia_str replace_char_def)
  qed
  from a b c d show ?thesis
    by (intro conjI)
qed

theorem nombre_saneado_witness:
  "marca_limpia E_latin1 lead_co = Inr (ascii ''Mi_Marca-1__Co'') \<and>
   list_all (\<lambda>c. isalnum_char E_latin1 c \<or> c = 45 \<or> c = 95) (ascii ''Mi_Marca-1__Co'') \<and>
   length (ascii ''Mi_Marca-1__Co'') \<le> 50 \<and>
   map_of lead_co (ascii ''marca'') = Some (VStr (ascii ''Mi Marca-1 & Co.'')) \<and>
   map_of [] (ascii ''marca'') = None \<and>
   marca_limpia E_latin1 [] = Inr (ascii ''marca'') \<and>
   map_of [(ascii ''marca'', VStr (ascii ''& !''))] (ascii ''marca'') = Some (VStr (ascii ''& !'')) \<and>
   marca_limpia E_latin1 [(ascii ''marca'', VStr (ascii ''& !''))] = Inr []"
proof -
  have a: "map_of lead_co (ascii ''marca'') = Some (VStr (ascii ''Mi Marca-1 & Co.''))"
    by (simp add: lead_co_def)
  have b: "map_of [(ascii ''marca'', VStr (ascii ''& !''))] (ascii ''marca'') = Some (VStr (ascii ''& !''))"
    by simp
  have c: "list_all (\<lambda>c. \<not> isalnum_char E_latin1 c \<and> c \<noteq> 45 \<and> c \<noteq> 95) (ascii ''& !'')"
    by (simp add: isalnum_char_def ascii_def)
  from nombre_saneado [of E_latin1 lead_co "ascii ''Mi_Marca-1__Co''" lead_co
      "ascii ''Mi Marca-1 & Co.''" "[]" "[(ascii ''marca'', VStr (ascii ''& !''))]" "ascii ''& !''"]
    marca_limpia_co [of E_latin1] a b c
  show ?thesis
    by (simp add: list_all_iff)
qed

text \<open>
  The brand \<^verbatim>\<open>!!!\<close> is sanitised to the empty stem, and the file is named with it:
  no generic label replaces it.
\<close>

theorem nombre_sin_etiqueta_counterexample:
  "marca_limpia E_latin1 [(ascii ''marca'', VStr (ascii ''!!!''))] = Inr [] \<and>
   nombre_archivo [] t_ejemplo = ascii ''reporte__20240305_090730.pdf''"
  by (simp add: marca_limpia_def dict_get_def str_isalnum_def isalnum_char_def strip_def
      strip_by_def replace_char_def nombre_archivo_def strftime_ts_def zpad_def digits.simps
      t_ejemplo_def ascii_def)


section \<open>Absent fields\<close>

text \<open>
  C3: For every lead and analysis in which any or all fields are absent (and the fields
  that are present have the expected types), with a date that formats and a renderer
  that succeeds, the HTML is composed and the path of the document is returned; and an
  absent field is rendered exactly as the field with its fallback value would be:
  "N/A", "Cliente", 0, "MEDIO", the empty text and the empty list for the document,
  "marca" for the file name, "N/A" and "No especificado" for a conflicting mark.
\<close>

theorem campos_ausentes:
  "(bien_formados lead an \<and> fecha_analisis t2 = Inr fecha \<and>
    (\<forall>h p. write_pdf h generar_css p = None) \<longrightarrow>
      (\<exists>h. generar_html E t2 lead an = Inr h) \<and>
      (\<exists>l. marca_limpia E lead = Inr l \<and>
           snd (generar_reporte self E write_pdf t1 t2 lead an) =
             Some (path_join (pdf_folder self) (nombre_archivo l t1)))) \<and>
   generar_html E t (lead @ lead_por_defecto) (an @ analisis_por_defecto) =
     generar_html E t lead an \<and>
   marca_limpia E (lead @ [(ascii ''marca'', VStr (ascii ''marca''))]) = marca_limpia E lead \<and>
   fila E i (VDict (d @ marca_por_defecto)) = fila E i (VDict d)"
proof -
  have a: "(\<exists>h. generar_html E t2 lead an = Inr h) \<and>
      (\<exists>l. marca_limpia E lead = Inr l \<and>
           snd (generar_reporte self E write_pdf t1 t2 lead an) =
             Some (path_join (pdf_folder self) (nombre_archivo l t1)))"
    if bf: "bien_formados lead an" and f: "fecha_analisis t2 = Inr fecha"
      and w: "\<forall>h p. write_pdf h generar_css p = None"
  proof -
    obtain h where h: "generar_html E t2 lead an = Inr h"
      using generar_html_bien_formados [OF bf f] by blast
    obtain l where l: "marca_limpia E lead = Inr l"
      using bf marca_limpia_de_texto unfolding bien_formados_def by blast
    from reporte_exito [OF l h] w
    have "snd (generar_reporte self E write_pdf t1 t2 lead an) =
        Some (path_join (pdf_folder self) (nombre_archivo l t1))"
      by simp
    with h l show ?thesis by blast
  qed
  from a show ?thesis
    by (simp add: generar_html_por_defecto marca_limpia_por_defecto fila_por_defecto)
qed

theorem campos_ausentes_witness:
  "bien_formados [] [] \<and>
   fecha_analisis t_ejemplo = Inr (ascii ''5 de marzo de 2024'') \<and>
   generar_html E_latin1 t_ejemplo [] [] = Inr (html_sin_datos (ascii ''5 de marzo de 2024'')) \<and>
   marca_limpia E_latin1 [] = Inr (ascii ''marca'') \<and>
   snd (generar_reporte gen_ejemplo E_latin1 (\<lambda>h c p. None) t_ejemplo t_ejemplo [] []) =
     Some (ascii ''/pdfs/reporte_marca_20240305_090730.pdf'')"
proof -
  have bf: "bien_formados [] []"
    by (simp add: bien_formados_def campo_def)
  have w: "\<forall>h p. (\<lambda>h c p. None :: error option) h generar_css p = None" by simp
  have l: "marca_limpia E_latin1 [] = Inr (ascii ''marca'')"
    by (simp add: marca_limpia_ausente)
  from campos_ausentes [where lead = "[]" and an = "[]" and ?t2.0 = t_ejemplo
      and write_pdf = "\<lambda>h c p. None" and E = E_latin1 and self = gen_ejemplo
      and ?t1.0 = t_ejemplo and fecha = "ascii ''5 de marzo de 2024''"]
    bf fecha_t_ejemplo w l generar_html_sin_datos [OF fecha_t_ejemplo, of E_latin1]
  show ?thesis
    by (simp add: nombre_archivo_def ts_t_ejemplo path_join_def gen_ejemplo_def ascii_def)
qed


section \<open>The table of conflicting marks\<close>

text \<open>
  C4: For every analysis whose list of conflicting marks has more than 15 entries, the
  table has exactly 15 data rows, those of the first 15 entries in order (row \<open>k\<close> is
  numbered from 1 and rendered from entry \<open>k\<close>); for an empty list no table is rendered
  and the notice that no conflicting marks were found appears instead.
\<close>

theorem tabla_quince_filas:
  "generar_tabla_marcas E (VList []) = Inr sin_marcas \<and>
   contiene sin_marcas (ascii ''No se identificaron marcas conflictivas significativas.'') \<and>
   \<not> contiene sin_marcas (ascii ''<table'') \<and>
   (15 < length ms \<and> length rows = 15 \<and>
    (\<forall>k<15. fila E (Suc k) (ms ! k) = Inr (rows ! k)) \<longrightarrow>
    generar_tabla_marcas E (VList ms) =
      Inr (tabla_0 @ digits (length ms) @ tabla_1 @ concat rows @ tabla_2))"
proof (intro conjI impI)
  show "generar_tabla_marcas E (VList []) = Inr sin_marcas"
    by (simp add: generar_tabla_marcas_def)
  show "contiene sin_marcas (ascii ''No se identificaron marcas conflictivas significativas.'')"
    by (simp add: sin_marcas_def ascii_def)
  show "\<not> contiene sin_marcas (ascii ''<table'')"
    by (simp add: sin_marcas_def ascii_def)
next
  assume h: "15 < length ms \<and> length rows = 15 \<and>
    (\<forall>k<15. fila E (Suc k) (ms ! k) = Inr (rows ! k))"
  show "generar_tabla_marcas E (VList ms) =
      Inr (tabla_0 @ digits (length ms) @ tabla_1 @ concat rows @ tabla_2)"
  proof (rule tabla_filas)
    show "ms \<noteq> []" using h by auto
    show "length rows = min 15 (length ms)" using h by simp
    show "\<forall>k<length rows. fila E (Suc k) (ms ! k) = Inr (rows ! k)" using h by simp
  qed
qed

theorem tabla_quince_filas_witness:
  "15 < length (replicate 16 (VDict [])) \<and>
   length (map (\<lambda>k. fila_sin_datos (Suc k)) [0..<15]) = 15 \<and>
   generar_tabla_marcas E_latin1 (VList (replicate 16 (VDict []))) =
     Inr (tabla_0 @ digits 16 @ tabla_1 @
          concat (map (\<lambda>k. fila_sin_datos (Suc k)) [0..<15]) @ tabla_2)"
proof -
  have a: "15 < length (replicate 16 (VDict []))" by simp
  have b: "length (map (\<lambda>k. fila_sin_datos (Suc k)) [0..<15]) = 15" by simp
  have c: "\<forall>k<15. fila E_latin1 (Suc k) (replicate 16 (VDict []) ! k) =
             Inr (map (\<lambda>k. fila_sin_datos (Suc k)) [0..<15] ! k)"
    by (simp add: fila_dict_vacio)
  from a b c tabla_quince_filas [of E_latin1 "replicate 16 (VDict [])"
      "map (\<lambda>k. fila_sin_datos (Suc k)) [0..<15]"]
  show ?thesis by simp
qed


text \<open>
  C5: For every entry whose holder is a string of more than 40 characters, the value
  rendered in the table is exactly the first 40 characters of the holder followed by
  three dots; a holder of 40 characters or less is rendered unchanged.
\<close>

theorem titular_truncado_a_40:
  assumes "map_of d (ascii ''titular'') = Some (VStr t)"
  shows "fila E i (VDict d) =
     Inr (fila_0 @ digits i @ fila_1 @
          py_format E (dict_get d (ascii ''denominacion'') (VStr (ascii ''N/A''))) @ fila_2 @
          py_format E (dict_get d (ascii ''expediente'') (VStr (ascii ''N/A''))) @ fila_3 @
          (if 40 < length t then take 40 t @ ascii ''...'' else t) @ fila_4 @
          py_format E (dict_get d (ascii ''clase'') (VStr (ascii ''N/A''))) @ fila_5 @
          py_format E (dict_get d (ascii ''estado'') (VStr (ascii ''N/A''))) @ fila_6)"
proof -
  have "dict_get d (ascii ''titular'') (VStr (ascii ''No especificado'')) = VStr t"
    using assms by (simp add: dict_get_def)
  then show ?thesis
    by (simp add: fila_def truncar_titular_str)
qed

theorem titular_truncado_a_40_witness:
  "map_of [(ascii ''titular'', VStr (replicate 41 65))] (ascii ''titular'') =
     Some (VStr (replicate 41 65)) \<and>
   fila E_latin1 1 (VDict [(ascii ''titular'', VStr (replicate 41 65))]) =
     Inr (fila_0 @ digits 1 @ fila_1 @ ascii ''N/A'' @ fila_2 @ ascii ''N/A'' @ fila_3 @
          replicate 40 65 @ ascii ''...'' @ fila_4 @ ascii ''N/A'' @ fila_5 @ ascii ''N/A'' @
          fila_6)"
  using titular_truncado_a_40 [of "[(ascii ''titular'', VStr (replicate 41 65))]"
      "replicate 41 65" E_latin1 1]
  by (simp add: dict_get_def ascii_def)


section \<open>The colour of the risk level\<close>

text \<open>
  C6: Every risk level that equals BAJO up to the case of its letters is rendered in
  the green \<^verbatim>\<open>#10b981\<close>, MEDIO likewise in the amber \<^verbatim>\<open>#f59e0b\<close> and ALTO in the
  red \<^verbatim>\<open>#ef4444\<close>; every string whose upper-case form is none of the three is rendered
  in the grey \<^verbatim>\<open>#6b7280\<close>.
\<close>

theorem color_segun_nivel:
  "(sin_caja s1 (ascii ''BAJO'') \<longrightarrow> color_riesgo E (VStr s1) = Inr (ascii ''#10b981'')) \<and>
   (sin_caja s2 (ascii ''MEDIO'') \<longrightarrow> color_riesgo E (VStr s2) = Inr (ascii ''#f59e0b'')) \<and>
   (sin_caja s3 (ascii ''ALTO'') \<longrightarrow> color_riesgo E (VStr s3) = Inr (ascii ''#ef4444'')) \<and>
   (upper E s4 \<noteq> ascii ''BAJO'' \<and> upper E s4 \<noteq> ascii ''MEDIO'' \<and> upper E s4 \<noteq> ascii ''ALTO'' \<longrightarrow>
      color_riesgo E (VStr s4) = Inr (ascii ''#6b7280''))"
proof (intro conjI impI)
  assume "sin_caja s1 (ascii ''BAJO'')"
  then have "upper E s1 = ascii ''BAJO''"
    by (rule upper_sin_caja) (simp add: ascii_def)
  then show "color_riesgo E (VStr s1) = Inr (ascii ''#10b981'')"
    by (simp add: color_por_upper)
next
  assume "sin_caja s2 (ascii ''MEDIO'')"
  then have "upper E s2 = ascii ''MEDIO''"
    by (rule upper_sin_caja) (simp add: ascii_def)
  then show "color_riesgo E (VStr s2) = Inr (ascii ''#f59e0b'')"
    by (simp add: color_por_upper ascii_def)
next
  assume "sin_caja s3 (ascii ''ALTO'')"
  then have "upper E s3 = ascii ''ALTO''"
    by (rule upper_sin_caja) (simp add: ascii_def)
  then show "color_riesgo E (VStr s3) = Inr (ascii ''#ef4444'')"
    by (simp add: color_por_upper ascii_def)
next
  assume "upper E s4 \<noteq> ascii ''BAJO'' \<and> upper E s4 \<noteq> ascii ''MEDIO'' \<and> upper E s4 \<noteq> ascii ''ALTO''"
  then show "color_riesgo E (VStr s4) = Inr (ascii ''#6b7280'')"
    by (simp add: color_por_upper)
qed

theorem color_segun_nivel_witness:
  "sin_caja (ascii ''bajo'') (ascii ''BAJO'') \<and>
   color_riesgo E_latin1 (VStr (ascii ''bajo'')) = Inr (ascii ''#10b981'') \<and>
   sin_caja (ascii ''Medio'') (ascii ''MEDIO'') \<and>
   color_riesgo E_latin1 (VStr (ascii ''Medio'')) = Inr (ascii ''#f59e0b'') \<and>
   sin_caja (ascii ''ALTO'') (ascii ''ALTO'') \<and>
   color_riesgo E_latin1 (VStr (ascii ''ALTO'')) = Inr (ascii ''#ef4444'') \<and>
   upper E_latin1 (ascii ''critico'') = ascii ''CRITICO'' \<and>
   color_riesgo E_latin1 (VStr (ascii ''critico'')) = Inr (ascii ''#6b7280'')"
proof -
  have a: "sin_caja (ascii ''bajo'') (ascii ''BAJO'')"
    and b: "sin_caja (ascii ''Medio'') (ascii ''MEDIO'')"
    and c: "sin_caja (ascii ''ALTO'') (ascii ''ALTO'')"
    by (simp_all add: sin_caja_def ascii_def)
  have d: "upper E_latin1 (ascii ''critico'') = ascii ''CRITICO''"
    by (simp add: upper_def upper_char_def ascii_def)
  have e: "ascii ''CRITICO'' \<noteq> ascii ''BAJO'' \<and> ascii ''CRITICO'' \<noteq> ascii ''MEDIO'' \<and>
           ascii ''CRITICO'' \<noteq> ascii ''ALTO''"
    by (simp add: ascii_def)
  from color_segun_nivel [of "ascii ''bajo''" E_latin1 "ascii ''Medio''" "ascii ''ALTO''"
      "ascii ''critico''"] a b c d e
  show ?thesis by simp
qed


section \<open>List fields that arrive as one string\<close>

text \<open>
  C7: The claim is that only the leading markers of a line are stripped and the rest of
  its text is kept. \<^verbatim>\<open>str.strip(chars)\<close> strips both ends: the recommendation
  "1. Renovar antes de 2030." is rendered as "Renovar antes de".
\<close>

theorem recomendacion_recortada:
  "normaliza_lista E_latin1 numeracion (VStr (ascii ''1. Renovar antes de 2030.'')) =
     VList [VStr (ascii ''Renovar antes de'')] \<and>
   generar_recomendaciones E_latin1
     (normaliza_lista E_latin1 numeracion (VStr (ascii ''1. Renovar antes de 2030.''))) =
     Inr (recs_0 @ rec_0 @ ascii ''1'' @ rec_1 @ ascii ''Renovar antes de'' @ rec_2 @ recs_1)"
proof -
  have a: "normaliza_lista E_latin1 numeracion (VStr (ascii ''1. Renovar antes de 2030.'')) =
     VList [VStr (ascii ''Renovar antes de'')]"
    by (simp add: normaliza_lista_def numeracion_def strip_def strip_by_def strip_chars_def
        isspace_char_def ascii_def)
  show ?thesis
    unfolding a
    by (simp add: generar_recomendaciones_def digits.simps ascii_def)
qed


section \<open>Sections that are left out\<close>

text \<open>
  C8: For an empty list of recommendations the builder of the section returns the empty
  text, and so does the builder of a bullet list for an empty list of factors; in the
  document the comment that announces the section is then followed directly by the
  comment of the next one, with no heading and no list in between.
\<close>

theorem secciones_vacias_ausentes:
  "generar_recomendaciones E (VList []) = Inr [] \<and>
   generar_lista E titulo (VList []) tipo = Inr [] \<and>
   (generar_html E t lead an = Inr h \<and>
    dict_get an (ascii ''recomendaciones'') (VList []) = VList [] \<longrightarrow>
      (\<exists>pre. h = pre @ html_13 @ html_14)) \<and>
   (generar_html E t lead an = Inr h \<and>
    dict_get an (ascii ''factores_riesgo'') (VList []) = VList [] \<longrightarrow>
      (\<exists>pre post. h = pre @ html_11 @ html_12 @ post)) \<and>
   (generar_html E t lead an = Inr h \<and>
    dict_get an (ascii ''factores_favorables'') (VList []) = VList [] \<longrightarrow>
      (\<exists>pre post. h = pre @ html_12 @ html_13 @ post)) \<and>
   \<not> contiene (html_11 @ html_12 @ html_13 @ html_14) (ascii ''<h2>'') \<and>
   \<not> contiene (html_11 @ html_12 @ html_13 @ html_14) (ascii ''<ul'') \<and>
   \<not> contiene (html_11 @ html_12 @ html_13 @ html_14) (ascii ''<ol'')"
proof -
  have a: "\<exists>pre. h = pre @ html_13 @ html_14"
    if "generar_html E t lead an = Inr h"
      and "dict_get an (ascii ''recomendaciones'') (VList []) = VList []"
  proof -
    from generar_html_forma [OF that(1)] that(2)
    obtain m f c k v col n tx tb lr lf
      where "h = plantilla_html m f c k v col n tx tb lr lf []"
      by auto
    then have "h = (html_0 @ m @ html_1 @ m @ html_2 @ f @ html_3 @ c @ html_4 @ k @
        html_5 @ v @ html_6 @ col @ html_7 @ col @ html_8 @ n @ html_9 @ tx @ html_10 @
        tb @ html_11 @ lr @ html_12 @ lf) @ html_13 @ html_14"
      by (simp add: plantilla_html_def)
    then show ?thesis by blast
  qed
  have b: "\<exists>pre post. h = pre @ html_11 @ html_12 @ post"
    if "generar_html E t lead an = Inr h"
      and "dict_get an (ascii ''factores_riesgo'') (VList []) = VList []"
  proof -
    from generar_html_forma [OF that(1)] that(2)
    obtain m f c k v col n tx tb lf recs
      where "h = plantilla_html m f c k v col n tx tb [] lf recs"
      by auto
    then have "h = (html_0 @ m @ html_1 @ m @ html_2 @ f @ html_3 @ c @ html_4 @ k @
        html_5 @ v @ html_6 @ col @ html_7 @ col @ html_8 @ n @ html_9 @ tx @ html_10 @
        tb) @ html_11 @ html_12 @ (lf @ html_13 @ recs @ html_14)"
      by (simp add: plantilla_html_def)
    then show ?thesis by blast
  qed
  have c: "\<exists>pre post. h = pre @ html_12 @ html_13 @ post"
    if "generar_html E t lead an = Inr h"
      and "dict_get an (ascii ''factores_favorables'') (VList []) = VList []"
  proof -
    from generar_html_forma [OF that(1)] that(2)
    obtain m f c k v col n tx tb lr recs
      where "h = plantilla_html m f c k v col n tx tb lr [] recs"
      by auto
    then have "h = (html_0 @ m @ html_1 @ m @ html_2 @ f @ html_3 @ c @ html_4 @ k @
        html_5 @ v @ html_6 @ col @ html_7 @ col @ html_8 @ n @ html_9 @ tx @ html_10 @
        tb @ html_11 @ lr) @ html_12 @ html_13 @ (recs @ html_14)"
      by (simp add: plantilla_html_def)
    then show ?thesis by blast
  qed
  have d: "\<not> contiene (html_11 @ html_12 @ html_13 @ html_14) (ascii ''<h2>'')"
    by (simp add: html_11_def html_12_def html_13_def html_14_def ascii_def)
  have e: "\<not> contiene (html_11 @ html_12 @ html_13 @ html_14) (ascii ''<ul'')"
    by (simp add: html_11_def html_12_def html_13_def html_14_def ascii_def)
  have f: "\<not> contiene (html_11 @ html_12 @ html_13 @ html_14) (ascii ''<ol'')"
    by (simp add: html_11_def html_12_def html_13_def html_14_def ascii_def)
  from a b c d e f show ?thesis
    by simp
qed

theorem secciones_vacias_ausentes_witness:
  "generar_html E_latin1 t_ejemplo [] [] = Inr (html_sin_datos (ascii ''5 de marzo de 2024'')) \<and>
   dict_get [] (ascii ''recomendaciones'') (VList []) = VList [] \<and>
   (\<exists>pre. html_sin_datos (ascii ''5 de marzo de 2024'') = pre @ html_13 @ html_14) \<and>
   (\<exists>pre post. html_sin_datos (ascii ''5 de marzo de 2024'') = pre @ html_11 @ html_12 @ post) \<and>
   (\<exists>pre post. html_sin_datos (ascii ''5 de marzo de 2024'') = pre @ html_12 @ html_13 @ post)"
proof -
  have g: "generar_html E_latin1 t_ejemplo [] [] = Inr (html_sin_datos (ascii ''5 de marzo de 2024''))"
    by (rule generar_html_sin_datos [OF fecha_t_ejemplo])
  have d: "dict_get [] k (VList []) = VList []" for k
    by (simp add: dict_get_def)
  from secciones_vacias_ausentes [of E_latin1 _ _ t_ejemplo "[]" "[]"
      "html_sin_datos (ascii ''5 de marzo de 2024'')"] g d
  show ?thesis by simp
qed


section \<open>The end-to-end example\<close>

text \<open>
  C9 (as amended): For the lead with the brand \<^verbatim>\<open>Caf\<close>U+00E9\<^verbatim>\<open> Sol!\<close>, the name
  \<^verbatim>\<open>Juan P\<close>U+00E9\<^verbatim>\<open>rez\<close> and the class 30, and the analysis with viability 72, risk
  level ALTO and an empty list of conflicting marks, with a date that formats and a
  renderer that succeeds, the file is named \<^verbatim>\<open>reporte_Caf\<close>U+00E9\<^verbatim>\<open>_Sol_\<close>, the time stamp,
  \<^verbatim>\<open>.pdf\<close> (the exclamation mark is dropped, the accented letter is kept); the risk level
  is rendered in the red \<^verbatim>\<open>#ef4444\<close>; and the section of conflicting marks is the notice
  that none was found.
\<close>

theorem ejemplo_cafe_sol:
  assumes "fecha_analisis t2 = Inr fecha" and "\<forall>h p. write_pdf h generar_css p = None"
  shows "snd (generar_reporte self E write_pdf t1 t2 lead_ejemplo analisis_ejemplo) =
     Some (path_join (pdf_folder self)
             (ascii ''reporte_Caf'' @ [233] @ ascii ''_Sol_'' @ strftime_ts t1 @ ascii ''.pdf'')) \<and>
   generar_html E t2 lead_ejemplo analisis_ejemplo =
     Inr (plantilla_html (ascii ''Caf'' @ [233] @ ascii '' Sol!'') fecha
            (ascii ''Juan P'' @ [233] @ ascii ''rez'') (ascii ''30'') (ascii ''72'')
            (ascii ''#ef4444'') (ascii ''ALTO'') [] sin_marcas [] [] []) \<and>
   color_riesgo E (VStr (ascii ''ALTO'')) = Inr (ascii ''#ef4444'') \<and>
   generar_tabla_marcas E (VList []) = Inr sin_marcas"
  using reporte_ejemplo [where write_pdf = write_pdf, OF assms(1)] assms(2)
    generar_html_ejemplo [OF assms(1)]
  by (simp add: html_ejemplo_def color_por_upper upper_def upper_char_def ascii_def
      generar_tabla_marcas_def)

theorem ejemplo_cafe_sol_witness:
  "fecha_analisis t_ejemplo = Inr (ascii ''5 de marzo de 2024'') \<and>
   snd (generar_reporte gen_ejemplo E_latin1 (\<lambda>h c p. None) t_ejemplo t_ejemplo
          lead_ejemplo analisis_ejemplo) =
     Some (ascii ''/pdfs/reporte_Caf'' @ [233] @ ascii ''_Sol_20240305_090730.pdf'') \<and>
   generar_html E_latin1 t_ejemplo lead_ejemplo analisis_ejemplo =
     Inr (html_ejemplo (ascii ''5 de marzo de 2024''))"
proof -
  have w: "\<forall>h p. (\<lambda>h c p. None :: error option) h generar_css p = None" by simp
  from ejemplo_cafe_sol [where write_pdf = "\<lambda>h c p. None" and self = gen_ejemplo
      and E = E_latin1 and ?t1.0 = t_ejemplo, OF fecha_t_ejemplo] w fecha_t_ejemplo
  show ?thesis
    by (simp add: ts_t_ejemplo path_join_def gen_ejemplo_def html_ejemplo_def ascii_def)
qed

text \<open>
  With the clock at 2024-03-05 09:07:30 and the folder \<^verbatim>\<open>/pdfs\<close>, the file of the example
  is not \<^verbatim>\<open>reporte_Caf_Sol_20240305_090730.pdf\<close>: the letter U+00E9 is alphanumeric for
  \<^verbatim>\<open>str.isalnum\<close> and is kept.
\<close>

theorem ejemplo_cafe_sol_counterexample:
  "snd (generar_reporte gen_ejemplo E_latin1 (\<lambda>h c p. None) t_ejemplo t_ejemplo
          lead_ejemplo analisis_ejemplo) \<noteq>
     Some (ascii ''/pdfs/reporte_Caf_Sol_20240305_090730.pdf'')"
proof -
  have w: "\<forall>h p. (\<lambda>h c p. None :: error option) h generar_css p = None" by simp
  from reporte_ejemplo [where write_pdf = "\<lambda>h c p. None" and self = gen_ejemplo
      and E = E_latin1 and ?t1.0 = t_ejemplo, OF fecha_t_ejemplo] w
  show ?thesis
    by (simp add: ts_t_ejemplo path_join_def gen_ejemplo_def ascii_def)
qed


text \<open>
  C10: For every non-empty list of conflicting marks for which the table is rendered, the
  caption above the table ("Se han identificado N marcas registradas ...") states the
  length of the whole list, while the rows are those of the first 15 entries only; so
  the count stated can exceed the number of rows.
\<close>

theorem leyenda_cuenta_total:
  assumes "ms \<noteq> []" and "generar_tabla_marcas E (VList ms) = Inr h"
  shows "\<exists>filas. filas_loop E 1 (take 15 ms) [] = Inr filas \<and>
           h = tabla_0 @ digits (length ms) @ tabla_1 @ filas @ tabla_2 \<and>
           drop (length tabla_0 - 20) tabla_0 = ascii ''Se han identificado '' \<and>
           take 19 tabla_1 = ascii '' marcas registradas''"
proof -
  have a: "drop (length tabla_0 - 20) tabla_0 = ascii ''Se han identificado ''"
    by (simp add: tabla_0_def ascii_def)
  have b: "take 19 tabla_1 = ascii '' marcas registradas''"
    by (simp add: tabla_1_def ascii_def)
  from assms show ?thesis
    by (cases "filas_loop E 1 (take 15 ms) []") (auto simp: tabla_lista_no_vacia a b)
qed

theorem leyenda_cuenta_total_witness:
  "replicate 16 (VDict []) \<noteq> [] \<and>
   (\<exists>filas. filas_loop E_latin1 1 (take 15 (replicate 16 (VDict []))) [] = Inr filas \<and>
      tabla_0 @ digits 16 @ tabla_1 @
        concat (map (\<lambda>k. fila_sin_datos (Suc k)) [0..<15]) @ tabla_2 =
      tabla_0 @ digits 16 @ tabla_1 @ filas @ tabla_2) \<and>
   digits 16 = ascii ''16''"
proof -
  have ne: "replicate 16 (VDict []) \<noteq> []" by simp
  have d: "digits 16 = ascii ''16''"
    by (simp add: digits.simps ascii_def)
  from leyenda_cuenta_total [OF ne tabla_16_sin_datos, of E_latin1] ne d
  show ?thesis by auto
qed


end
